theory Spec2Isabelle
  imports Main "HOL-Library.Word"
begin

unbundle bit_operations_syntax

section \<open>Data model of phase1\_d2c\_remap.c\<close>

text \<open>
  The file is written for the 32-bit OMAP target: it casts a pointer to \<^verbatim>\<open>uint32_t\<close>
  (line 353). The typedefs \<^verbatim>\<open>bytes_t\<close>, \<^verbatim>\<open>pixels_t\<close>, \<^verbatim>\<open>SSPtr\<close>, \<^verbatim>\<open>DSPtr\<close> and the
  structs \<^verbatim>\<open>tiler_block_info\<close> and \<^verbatim>\<open>tiler_buf_info\<close> are declared in mem\_types.h and
  tiler.h, which are not part of the sources at hand. They are taken here as the casts of
  the file suggest: byte counts, driver pointers, device pointers and process pointers are
  unsigned 32-bit words, the two members of \<^verbatim>\<open>dim.area\<close> and \<^verbatim>\<open>pixels_t\<close> are unsigned
  16-bit words (the source widens them with \<^verbatim>\<open>(bytes_t)\<close> before it multiplies, lines 78
  and 246). C \<^verbatim>\<open>int\<close> values that only carry a count or a status (\<^verbatim>\<open>num_blocks\<close>,
  \<^verbatim>\<open>td\<close>, \<^verbatim>\<open>res\<close>, \<^verbatim>\<open>ret\<close>) are HOL integers; the two \<^verbatim>\<open>int\<close> page widths of the
  resolver are kept as 32-bit words and compared as signed values.
\<close>

type_synonym u32 = "32 word"
type_synonym u16 = "16 word"
type_synonym bytes_t = u32
type_synonym pixels_t = u16
type_synonym SSPtr = u32
type_synonym DSPtr = u32
type_synonym voidptr = u32

text \<open>
  The pixel format of a block. The source names the formats both \<^verbatim>\<open>PIXEL_FMT_*\<close>
  (\<^verbatim>\<open>def_bpp\<close>, \<^verbatim>\<open>def_size\<close>) and \<^verbatim>\<open>TILFMT_*\<close> (the remap loop) and applies both to the
  same field \<^verbatim>\<open>fmt\<close>; the two families are taken to name the same values.
  \<open>PIXEL_FMT_OTHER\<close> stands for every value outside the four named ones (the
  \<^verbatim>\<open>default:\<close> case of \<^verbatim>\<open>dump_block\<close>).
\<close>

datatype pixel_fmt_t =
  PIXEL_FMT_8BIT | PIXEL_FMT_16BIT | PIXEL_FMT_32BIT | PIXEL_FMT_PAGE | PIXEL_FMT_OTHER

text \<open>
  \<^verbatim>\<open>struct tiler_block_info\<close>. In C \<^verbatim>\<open>dim\<close> is a union of \<^verbatim>\<open>len\<close> and
  \<^verbatim>\<open>area = {width, height}\<close>; the source only ever reads the member that \<^verbatim>\<open>fmt\<close>
  selects, after writing that same member, so the members are separate fields here.
\<close>

record tiler_block_info =
  fmt :: pixel_fmt_t
  dim_len :: u32
  dim_area_width :: u16
  dim_area_height :: u16
  stride :: u32
  ptr :: voidptr
  ssptr :: SSPtr

text \<open>
  \<^verbatim>\<open>struct tiler_buf_info\<close>. \<open>blocks\<close> holds the leading entries of the fixed array
  \<^verbatim>\<open>blocks[TILER_MAX_NUM_BLOCKS]\<close>; the entries after the end of the list are the zeroed
  ones that \<^verbatim>\<open>ZERO(buf)\<close> leaves.
\<close>

record tiler_buf_info =
  num_blocks :: int
  blocks :: "tiler_block_info list"
  offset :: u32

text \<open>
  Modelled from the spec: \<^verbatim>\<open>PAGE_SIZE\<close> comes from the platform headers, which are
  missing; the spec gives "a fixed platform constant, e.g. 4096".
\<close>

definition PAGE_SIZE :: u32 where
  "PAGE_SIZE = 4096"

text \<open>\<^verbatim>\<open>MAP_FAILED\<close> of sys/mman.h is \<^verbatim>\<open>(void *) -1\<close>; \<^verbatim>\<open>NULL\<close> is 0.\<close>

definition MAP_FAILED :: voidptr where
  "MAP_FAILED = - 1"

definition NULL :: voidptr where
  "NULL = 0"

text \<open>
  The constants of the missing headers whose values the spec does not give are parameters
  of the two entry points: \<^verbatim>\<open>TILER_MAX_NUM_BLOCKS\<close> (tiler.h) and \<^verbatim>\<open>REMAP_ERR_GENERIC\<close>
  (phase1\_d2c\_remap.h).
\<close>

record consts_t =
  TILER_MAX_NUM_BLOCKS :: int
  REMAP_ERR_GENERIC :: int

text \<open>The entry written by \<^verbatim>\<open>ZERO\<close>; \<^verbatim>\<open>PIXEL_FMT_8BIT\<close> stands for the format value 0.\<close>

definition zero_block :: tiler_block_info where
  "zero_block = \<lparr>fmt = PIXEL_FMT_8BIT, dim_len = 0, dim_area_width = 0,
     dim_area_height = 0, stride = 0, ptr = 0, ssptr = 0\<rparr>"

definition blk_at :: "tiler_block_info list \<Rightarrow> nat \<Rightarrow> tiler_block_info" where
  "blk_at bs ix = (if ix < length bs then bs ! ix else zero_block)"

section \<open>Block geometry\<close>

definition def_bpp :: "pixel_fmt_t \<Rightarrow> bytes_t" where
  "def_bpp pixelFormat =
     (if pixelFormat = PIXEL_FMT_32BIT then 4
      else if pixelFormat = PIXEL_FMT_16BIT then 2 else 1)"

definition def_stride :: "pixels_t \<Rightarrow> bytes_t" where
  "def_stride width = (PAGE_SIZE - 1 + ucast width) AND NOT (PAGE_SIZE - 1)"

text \<open>
  \<^verbatim>\<open>def_size\<close>: the product \<^verbatim>\<open>width * def_bpp(fmt)\<close> is a 32-bit value that the call
  narrows to the \<^verbatim>\<open>pixels_t\<close> parameter of \<^verbatim>\<open>def_stride\<close>.
\<close>

definition def_size :: "tiler_block_info \<Rightarrow> bytes_t" where
  "def_size blk =
     (if fmt blk = PIXEL_FMT_PAGE then dim_len blk
      else ucast (dim_area_height blk) *
           def_stride (ucast (ucast (dim_area_width blk) * def_bpp (fmt blk))))"

text \<open>
  What stops a call before it returns: an integer division by zero and an array read past
  its end are undefined behaviour in C.
\<close>

datatype fault = Div_by_zero | Out_of_bounds

subsection \<open>Stride resolution (lines 246--266)\<close>

definition max_alloc_size :: "tiler_block_info \<Rightarrow> bytes_t" where
  "max_alloc_size blk = ucast (dim_area_height blk) * PAGE_SIZE"

definition min_alloc_size :: "tiler_block_info \<Rightarrow> bytes_t" where
  "min_alloc_size blk =
     max_alloc_size blk - (if fmt blk = PIXEL_FMT_8BIT then 63 else 31) * PAGE_SIZE"

definition min_page_width :: "tiler_block_info \<Rightarrow> bytes_t \<Rightarrow> u32" where
  "min_page_width blk len = (len + max_alloc_size blk - 1) div max_alloc_size blk"

text \<open>\<open>max_page_width\<close> is the value of the variable after the lowering of lines 250--255.\<close>

definition max_page_width :: "tiler_block_info \<Rightarrow> bytes_t \<Rightarrow> u32" where
  "max_page_width blk len =
     (let m = (len + min_alloc_size blk - 1) div min_alloc_size blk;
          w = ucast (dim_area_width blk) div PAGE_SIZE
      in if w <s m then w else m)"

text \<open>The three assignments of lines 264--266.\<close>

definition resolved_block :: "tiler_block_info \<Rightarrow> bytes_t \<Rightarrow> tiler_block_info" where
  "resolved_block blk len =
     blk\<lparr>dim_area_height := ucast (len div PAGE_SIZE div min_page_width blk len),
         dim_area_width := ucast (PAGE_SIZE * min_page_width blk len div def_bpp (fmt blk)),
         stride := ucast (ucast (PAGE_SIZE * min_page_width blk len div def_bpp (fmt blk))
                          :: u16)\<rparr>"

text \<open>
  Modelled from the spec: \<^verbatim>\<open>CHK_I\<close> is a macro of debug\_utils.h, which is missing; the
  source uses it as a statement of its own (lines 256 and 268). By the spec a violation
  of \<^verbatim>\<open>min_page_width <= max_page_width\<close> "is a consistency fault [...] and aborts the
  remap for that block", a failure of the check after resolution "is a fatal consistency
  fault for that remap call", and such faults "abort only the affected call, not the
  process": a comparison that does not hold sends the call to its exit \<^verbatim>\<open>FAIL\<close>, one that
  holds lets it go on.
\<close>

datatype flow = Goes_on | Aborts_call

definition CHK_I :: "bool \<Rightarrow> flow" where
  "CHK_I holds = (if holds then Goes_on else Aborts_call)"

text \<open>
  The \<^verbatim>\<open>else\<close> branch of the loop body (lines 246--266) for one block \<open>blk\<close> as the
  driver reported it and the caller's length \<open>len\<close>: \<open>None\<close> when the check of line 256
  aborts, otherwise the block as rewritten. The divisions and the check are in the order
  in which the source performs them.
\<close>

definition resolve_stride :: "tiler_block_info \<Rightarrow> bytes_t \<Rightarrow> fault + tiler_block_info option" where
  "resolve_stride blk len =
     (if max_alloc_size blk = 0 then Inl Div_by_zero
      else if min_alloc_size blk = 0 then Inl Div_by_zero
      else
        (case CHK_I (min_page_width blk len \<le>s max_page_width blk len) of
           Aborts_call \<Rightarrow> Inr None
         | Goes_on \<Rightarrow>
             if min_page_width blk len = 0 then Inl Div_by_zero
             else Inr (Some (resolved_block blk len))))"

section \<open>The buffer-handle cache\<close>

text \<open>
  The global list \<^verbatim>\<open>bufs\<close> with its flag \<^verbatim>\<open>bufs_inited\<close>. The list macros of
  list\_utils.h are missing; by their names \<^verbatim>\<open>DLIST_MADD_BEFORE(bufs, ad, link)\<close> links
  the new entry before the list head, that is at the end of the circular list, and
  \<^verbatim>\<open>DLIST_MLOOP\<close> walks the entries from the first one. The mutex only serialises the
  operations and is left out; \<^verbatim>\<open>NEW\<close> is taken to succeed.
\<close>

record cache_t =
  bufs :: "(voidptr \<times> u32) list"
  bufs_inited :: bool

definition init :: "cache_t \<Rightarrow> cache_t" where
  "init c = (if \<not> bufs_inited c then \<lparr>bufs = [], bufs_inited = True\<rparr> else c)"

definition remap_cache_add :: "cache_t \<Rightarrow> voidptr \<Rightarrow> u32 \<Rightarrow> cache_t" where
  "remap_cache_add c bufPtr tiler_id =
     (let c1 = init c in c1\<lparr>bufs := bufs c1 @ [(bufPtr, tiler_id)]\<rparr>)"

fun dlist_del :: "(voidptr \<times> u32) list \<Rightarrow> voidptr \<Rightarrow> u32 \<times> (voidptr \<times> u32) list" where
  "dlist_del [] bufPtr = (0, [])"
| "dlist_del (ad # rest) bufPtr =
     (if fst ad = bufPtr then (snd ad, rest)
      else (case dlist_del rest bufPtr of (tiler_id, rest') \<Rightarrow> (tiler_id, ad # rest')))"

definition remap_cache_del :: "cache_t \<Rightarrow> voidptr \<Rightarrow> u32 \<times> cache_t" where
  "remap_cache_del c bufPtr =
     (let c1 = init c in
      case dlist_del (bufs c1) bufPtr of (tiler_id, rest) \<Rightarrow> (tiler_id, c1\<lparr>bufs := rest\<rparr>))"

section \<open>The driver and the process-memory service\<close>

text \<open>
  The tiler driver and the kernel are outside the file. One call of an entry point sees
  them as the answers they give: \<open>sys_open\<close> is the descriptor that
  \<^verbatim>\<open>open("/dev/tiler", ...)\<close> returns, each \<^verbatim>\<open>ioctl\<close> maps the struct passed in to its
  result and to the struct as the driver leaves it, \<open>sys_mmap size offset\<close> is the
  address returned for \<^verbatim>\<open>mmap(0, size, ..., td, offset)\<close> and
  \<open>sys_munmap addr size\<close> the result of \<^verbatim>\<open>munmap\<close>.
  Modelled from the spec: \<^verbatim>\<open>TILIOC_URBUF\<close> is implemented by the driver, which is
  missing; by the spec it is "given a buffer identifier, releases driver-side tracking",
  so it leaves the struct as it is.
\<close>

record env =
  sys_open :: int
  TILIOC_QUERY_BLK :: "tiler_block_info \<Rightarrow> int \<times> tiler_block_info"
  TILIOC_RBUF :: "tiler_buf_info \<Rightarrow> int \<times> tiler_buf_info"
  TILIOC_QBUF :: "tiler_buf_info \<Rightarrow> int \<times> tiler_buf_info"
  TILIOC_URBUF :: "tiler_buf_info \<Rightarrow> int"
  sys_mmap :: "bytes_t \<Rightarrow> u32 \<Rightarrow> voidptr"
  sys_munmap :: "voidptr \<Rightarrow> bytes_t \<Rightarrow> int"

text \<open>
  What a call does to the outside, in order: the session opened (with the descriptor
  returned), each request with its argument and its result, the session closed, and a
  \<^verbatim>\<open>CHK_I\<close> that did not hold.
\<close>

datatype check = Chk_page_width | Chk_size

datatype event =
  Ev_open int
| Ev_QUERY_BLK SSPtr int
| Ev_RBUF tiler_buf_info int u32
| Ev_QBUF u32 int
| Ev_URBUF u32 int
| Ev_mmap bytes_t u32 voidptr
| Ev_munmap voidptr bytes_t int
| Ev_check_failed check
| Ev_close

text \<open>
  The other macros of debug\_utils.h are read as the source uses them:
  \<^verbatim>\<open>NOT_I(a,cmp,b)\<close> and \<^verbatim>\<open>NOT_P(a,cmp,b)\<close> are the conditions of the \<^verbatim>\<open>if\<close>s in
  which they stand and are true when \<^verbatim>\<open>a cmp b\<close> is not; \<^verbatim>\<open>A_I(e,cmp,b)\<close> and
  \<^verbatim>\<open>A_L(e,cmp,b)\<close> stand where the value of \<^verbatim>\<open>e\<close> is assigned or tested; \<^verbatim>\<open>R_P\<close> and
  \<^verbatim>\<open>R_I\<close> pass the returned value through.
\<close>

text \<open>
  Modelled from the spec: \<^verbatim>\<open>ROUND_DOWN_TO2POW\<close> and \<^verbatim>\<open>ERR_ADD\<close> are macros of the missing
  utils.h. The spec has the unmapping start "at the page-aligned floor" of the pointer,
  and has demap "accumulate any unmap error into the result code (unmap is attempted even
  if unregistration reported an error)": the expression is always evaluated, and its
  result becomes the status when no earlier error is held.
\<close>

definition ROUND_DOWN_TO2POW :: "u32 \<Rightarrow> u32 \<Rightarrow> u32" where
  "ROUND_DOWN_TO2POW x n = x AND NOT (n - 1)"

definition ERR_ADD :: "int \<Rightarrow> int \<Rightarrow> int" where
  "ERR_ADD err e = (if err = 0 then e else err)"

section \<open>Remap\<close>

text \<open>
  The check of line 268 on the entry \<open>blk1\<close> as lines 237--267 leave it, after the
  events \<open>evs\<close> of the body so far.
\<close>

definition check_size ::
  "tiler_block_info \<Rightarrow> bytes_t \<Rightarrow> event list \<Rightarrow> tiler_block_info option \<times> event list" where
  "check_size blk1 len evs =
     (case CHK_I (def_size blk1 = len) of
        Aborts_call \<Rightarrow> (None, evs @ [Ev_check_failed Chk_size])
      | Goes_on \<Rightarrow> (Some blk1, evs))"

text \<open>
  The body of the \<^verbatim>\<open>for\<close> loop (lines 215--271) at index \<open>ix\<close>: \<open>None\<close> is the way
  to \<^verbatim>\<open>FAIL\<close>, \<open>Some\<close> the entry \<^verbatim>\<open>buf.blocks[ix]\<close> as the body leaves it.
  \<^verbatim>\<open>dsptrs[ix]\<close> is read first, \<^verbatim>\<open>lengths[ix]\<close> only after the query has succeeded.
\<close>

definition remap_block ::
  "env \<Rightarrow> DSPtr list \<Rightarrow> bytes_t list \<Rightarrow> nat
   \<Rightarrow> fault + (tiler_block_info option \<times> event list)" where
  "remap_block e dsptrs lengths ix =
     (if \<not> ix < length dsptrs then Inl Out_of_bounds
      else
        (let blk0 = zero_block\<lparr>ssptr := dsptrs ! ix\<rparr> in
         if \<not> (ssptr blk0 \<noteq> 0) then Inr (None, [])
         else
           (case TILIOC_QUERY_BLK e blk0 of (res, blk) \<Rightarrow>
              if \<not> (res = 0) \<or> \<not> (ssptr blk \<noteq> 0)
              then Inr (None, [Ev_QUERY_BLK (ssptr blk0) res])
              else if \<not> ix < length lengths then Inl Out_of_bounds
              else if fmt blk = PIXEL_FMT_PAGE
              then Inr (check_size (blk\<lparr>dim_len := lengths ! ix\<rparr>) (lengths ! ix)
                          [Ev_QUERY_BLK (ssptr blk0) res])
              else
                (case resolve_stride blk (lengths ! ix) of
                   Inl f \<Rightarrow> Inl f
                 | Inr None \<Rightarrow>
                     Inr (None, [Ev_QUERY_BLK (ssptr blk0) res, Ev_check_failed Chk_page_width])
                 | Inr (Some blk1) \<Rightarrow>
                     Inr (check_size blk1 (lengths ! ix) [Ev_QUERY_BLK (ssptr blk0) res])))))"

text \<open>
  The loop \<^verbatim>\<open>for (ix = 0; ix < num_blocks; ix++)\<close>. The flag of the result is false
  when the loop left through \<^verbatim>\<open>goto FAIL\<close>; the list is \<^verbatim>\<open>buf.blocks\<close> up to \<open>ix\<close>
  and \<open>sz\<close> is the variable \<^verbatim>\<open>size\<close>.
\<close>

function remap_blocks ::
  "env \<Rightarrow> nat \<Rightarrow> DSPtr list \<Rightarrow> bytes_t list \<Rightarrow> nat \<Rightarrow> tiler_block_info list \<Rightarrow> bytes_t
   \<Rightarrow> event list \<Rightarrow> fault + (bool \<times> tiler_block_info list \<times> bytes_t \<times> event list)" where
  "remap_blocks e n dsptrs lengths ix blks sz tr =
     (if ix < n then
        (case remap_block e dsptrs lengths ix of
           Inl f \<Rightarrow> Inl f
         | Inr (None, evs) \<Rightarrow> Inr (False, blks, sz, tr @ evs)
         | Inr (Some blk, evs) \<Rightarrow>
             remap_blocks e n dsptrs lengths (ix + 1) (blks @ [blk])
               (sz + def_size blk) (tr @ evs))
      else Inr (True, blks, sz, tr))"
  by pat_completeness auto
termination
  by (relation "measure (\<lambda>(e, n, dsptrs, lengths, ix, blks, sz, tr). n - ix)") auto

declare remap_blocks.simps [simp del]

text \<open>
  \<^verbatim>\<open>tiler_assisted_phase1_D2CReMap\<close>. The result is the pointer returned, the cache
  after the call and the events of the call. The last loop of the source (lines 302--307)
  only writes the \<^verbatim>\<open>ptr\<close> members of the local \<^verbatim>\<open>buf\<close>, which is gone at the return, and
  has no counterpart here.
\<close>

definition tiler_assisted_phase1_D2CReMap ::
  "consts_t \<Rightarrow> env \<Rightarrow> cache_t \<Rightarrow> int \<Rightarrow> DSPtr list \<Rightarrow> bytes_t list
   \<Rightarrow> fault + (voidptr \<times> cache_t \<times> event list)" where
  "tiler_assisted_phase1_D2CReMap k e c n dsptrs lengths =
     (if \<not> (n > 0) \<or> \<not> (n \<le> TILER_MAX_NUM_BLOCKS k) then Inr (NULL, c, [])
      else if \<not> (sys_open e \<ge> 0) then Inr (NULL, c, [Ev_open (sys_open e)])
      else
        (case remap_blocks e (nat n) dsptrs lengths 0 [] 0 [Ev_open (sys_open e)] of
           Inl f \<Rightarrow> Inl f
         | Inr (False, blks, sz, tr) \<Rightarrow> Inr (NULL, c, tr @ [Ev_close])
         | Inr (True, blks, sz, tr) \<Rightarrow>
             (let buf0 = \<lparr>num_blocks = n, blocks = blks, offset = 0\<rparr> in
              case TILIOC_RBUF e buf0 of (res, buf) \<Rightarrow>
                if \<not> (res = 0) \<or> \<not> (offset buf \<noteq> 0)
                then Inr (NULL, c, tr @ [Ev_RBUF buf0 res (offset buf), Ev_close])
                else
                  (let m = sys_mmap e sz (offset buf);
                       bufPtr = (if m = MAP_FAILED then NULL
                                 else m + (ssptr (blk_at (blocks buf) 0) AND (PAGE_SIZE - 1)));
                       tr1 = tr @ [Ev_RBUF buf0 res (offset buf), Ev_mmap sz (offset buf) m]
                   in if \<not> (bufPtr \<noteq> NULL)
                      then Inr (NULL, c,
                             tr1 @ [Ev_URBUF (offset buf) (TILIOC_URBUF e buf), Ev_close])
                      else Inr (bufPtr, remap_cache_add c bufPtr (offset buf),
                             tr1 @ [Ev_close])))))"

section \<open>Demap\<close>

text \<open>The loop of lines 349--352 over the entries the driver's answer counts.\<close>

function demap_size :: "tiler_block_info list \<Rightarrow> int \<Rightarrow> int \<Rightarrow> bytes_t \<Rightarrow> bytes_t" where
  "demap_size blks n ix sz =
     (if ix < n then demap_size blks n (ix + 1) (sz + def_size (blk_at blks (nat ix)))
      else sz)"
  by pat_completeness auto
termination
  by (relation "measure (\<lambda>(blks, n, ix, sz). nat (n - ix))") auto

declare demap_size.simps [simp del]

text \<open>
  \<^verbatim>\<open>tiler_assisted_phase1_DeMap\<close>. The result is the status returned, the cache after
  the call and the events of the call. An answer of the driver that counts more blocks
  than the array holds makes the loop read past the array.
\<close>

definition tiler_assisted_phase1_DeMap ::
  "consts_t \<Rightarrow> env \<Rightarrow> cache_t \<Rightarrow> voidptr \<Rightarrow> fault + (int \<times> cache_t \<times> event list)" where
  "tiler_assisted_phase1_DeMap k e c bufPtr =
     (if \<not> (sys_open e \<ge> 0) then Inr (REMAP_ERR_GENERIC k, c, [Ev_open (sys_open e)])
      else
        (case remap_cache_del c bufPtr of (tiler_id, c1) \<Rightarrow>
           (let buf0 = \<lparr>num_blocks = 0, blocks = [], offset = tiler_id\<rparr> in
            if offset buf0 \<noteq> 0 then
              (case TILIOC_QBUF e buf0 of (ret, buf) \<Rightarrow>
                 if ret = 0 then
                   (if num_blocks buf > TILER_MAX_NUM_BLOCKS k then Inl Out_of_bounds
                    else
                      (let ret1 = TILIOC_URBUF e buf;
                           sz = demap_size (blocks buf) (num_blocks buf) 0 0;
                           bufPtr1 = ROUND_DOWN_TO2POW bufPtr PAGE_SIZE;
                           res = sys_munmap e bufPtr1 sz
                       in Inr (ERR_ADD ret1 res, c1,
                               [Ev_open (sys_open e), Ev_QBUF (offset buf0) ret,
                                Ev_URBUF (offset buf) ret1, Ev_munmap bufPtr1 sz res,
                                Ev_close])))
                 else Inr (ret, c1,
                        [Ev_open (sys_open e), Ev_QBUF (offset buf0) ret, Ev_close]))
            else Inr (REMAP_ERR_GENERIC k, c1, [Ev_open (sys_open e), Ev_close]))))"

section \<open>Sample values\<close>

text \<open>Concrete constants, caches, blocks and driver answers at which the theorems are run.\<close>

definition ex_consts :: consts_t where
  "ex_consts = \<lparr>TILER_MAX_NUM_BLOCKS = 16, REMAP_ERR_GENERIC = 1\<rparr>"

definition ex_cache :: cache_t where
  "ex_cache = \<lparr>bufs = [], bufs_inited = False\<rparr>"

definition ex_page_block :: "SSPtr \<Rightarrow> bytes_t \<Rightarrow> tiler_block_info" where
  "ex_page_block s len = \<lparr>fmt = PIXEL_FMT_PAGE, dim_len = len, dim_area_width = 0,
     dim_area_height = 0, stride = 0, ptr = 0, ssptr = s\<rparr>"

definition ex_dsptrs :: "DSPtr list" where
  "ex_dsptrs = [0x80000010, 0x80003000]"

definition ex_lengths :: "bytes_t list" where
  "ex_lengths = [4096, 8192]"

definition ex_blocks :: "tiler_block_info list" where
  "ex_blocks = [ex_page_block 0x80000010 4096, ex_page_block 0x80003000 8192]"

text \<open>
  A driver that knows every block as a raw-page block, registers a buffer under the
  token \<open>0x1000\<close>, answers the buffer query with the two page blocks \<open>ex_blocks\<close>
  of 4096 and 8192 bytes, and a kernel that maps at \<open>0x40000000\<close>.
\<close>

definition ex_env :: env where
  "ex_env = \<lparr>sys_open = 3,
     TILIOC_QUERY_BLK = (\<lambda>b. (0, b\<lparr>fmt := PIXEL_FMT_PAGE\<rparr>)),
     TILIOC_RBUF = (\<lambda>b. (0, b\<lparr>offset := 0x1000\<rparr>)),
     TILIOC_QBUF = (\<lambda>b. (0, b\<lparr>num_blocks := 2,
                                   blocks := ex_blocks\<rparr>)),
     TILIOC_URBUF = (\<lambda>b. 0),
     sys_mmap = (\<lambda>sz off. 0x40000000),
     sys_munmap = (\<lambda>p sz. 0)\<rparr>"

text \<open>The same, with a kernel that refuses to map.\<close>

definition ex_env_nomap :: env where
  "ex_env_nomap = ex_env\<lparr>sys_mmap := (\<lambda>sz off. MAP_FAILED)\<rparr>"

text \<open>A driver whose \<^verbatim>\<open>TILIOC_URBUF\<close> reports an error.\<close>

definition ex_env_urbuf :: env where
  "ex_env_urbuf = ex_env\<lparr>TILIOC_URBUF := (\<lambda>b. - 1)\<rparr>"

text \<open>The events of remap on the two sample blocks up to the registration.\<close>

definition ex_remap_events :: "event list" where
  "ex_remap_events =
     [Ev_open 3, Ev_QUERY_BLK 0x80000010 0, Ev_QUERY_BLK 0x80003000 0,
      Ev_RBUF \<lparr>num_blocks = 2, blocks = ex_blocks, offset = 0\<rparr> 0 0x1000]"

text \<open>The cache with the one entry that this remap adds, and the cache without it.\<close>

definition ex_cache1 :: cache_t where
  "ex_cache1 = \<lparr>bufs = [(0x40000010, 0x1000)], bufs_inited = True\<rparr>"

definition ex_cache2 :: cache_t where
  "ex_cache2 = \<lparr>bufs = [], bufs_inited = True\<rparr>"

text \<open>
  A block as the driver reports an 8-bit area: two pages wide, 64 rows, so that the
  caller's length alone decides between one and two pages per row.
\<close>

definition ex_2d_block :: tiler_block_info where
  "ex_2d_block = \<lparr>fmt = PIXEL_FMT_8BIT, dim_len = 0, dim_area_width = 8192,
     dim_area_height = 64, stride = 0, ptr = 0, ssptr = 0x80000010\<rparr>"

text \<open>
  An 8-bit block of three pages by 65 rows holds 798720 bytes; the driver reports its
  height rounded up to 128 rows.
\<close>

definition ex_tall_block :: tiler_block_info where
  "ex_tall_block = \<lparr>fmt = PIXEL_FMT_8BIT, dim_len = 0, dim_area_width = 12288,
     dim_area_height = 128, stride = 0, ptr = 0, ssptr = 0x80000010\<rparr>"

text \<open>A driver that reports every block as the 8-bit area of 8192 by 64.\<close>

definition ex_env_2d :: env where
  "ex_env_2d = ex_env\<lparr>TILIOC_QUERY_BLK :=
     (\<lambda>b. (0, b\<lparr>fmt := PIXEL_FMT_8BIT, dim_area_width := 8192, dim_area_height := 64\<rparr>))\<rparr>"


text \<open>The size that demap unmaps: the sum of \<open>def_size\<close> over the counted blocks.\<close>

definition demap_total :: "tiler_buf_info \<Rightarrow> bytes_t" where
  "demap_total buf =
     sum_list (map (\<lambda>i. def_size (blk_at (blocks buf) i)) [0..<nat (num_blocks buf)])"

section \<open>What the driver and the kernel hold\<close>

text \<open>
  Modelled from the spec: the driver and the process-memory service are not part of the
  sources. By the spec's section on external interfaces, a successful \<^verbatim>\<open>TILIOC_RBUF\<close>
  registers the buffer under the nonzero offset it returns, a successful
  \<^verbatim>\<open>TILIOC_URBUF\<close> releases it, a successful \<^verbatim>\<open>mmap\<close> creates a mapping of N bytes
  backed by the buffer of the offset at the base address it returns, and a successful
  \<^verbatim>\<open>munmap\<close> "unmaps N bytes at a page-aligned address". \<open>registered\<close> is the set of
  offsets registered; \<open>mapped\<close> lists the mappings in place, each with its base
  address, its offset and its number of bytes. The service works in whole pages: a
  mapping of N bytes at the base \<open>a\<close> takes the addresses from \<open>a\<close> up to \<open>a\<close> plus
  N rounded up to a multiple of the page size; unmapping N bytes at an address ends
  every mapping that has a page in that range, also a mapping of which only a part is
  unmapped, and a new mapping takes the place of the mappings it overlaps.
\<close>

type_synonym region = "voidptr \<times> u32 \<times> bytes_t"

definition region_end :: "voidptr \<Rightarrow> bytes_t \<Rightarrow> nat" where
  "region_end a n = unat a + (unat n + 4095) div 4096 * 4096"

definition overlaps :: "voidptr \<Rightarrow> bytes_t \<Rightarrow> voidptr \<Rightarrow> bytes_t \<Rightarrow> bool" where
  "overlaps a n b m = (unat a < region_end b m \<and> unat b < region_end a n)"

definition unmap :: "region list \<Rightarrow> voidptr \<Rightarrow> bytes_t \<Rightarrow> region list" where
  "unmap rs addr sz = filter (\<lambda>(a, off, n). \<not> overlaps a n addr sz) rs"

record world =
  registered :: "u32 set"
  mapped :: "region list"

fun world_event :: "world \<Rightarrow> event \<Rightarrow> world" where
  "world_event w (Ev_RBUF b res off) =
     (if res = 0 \<and> off \<noteq> 0 then w\<lparr>registered := insert off (registered w)\<rparr> else w)"
| "world_event w (Ev_URBUF off res) =
     (if res = 0 then w\<lparr>registered := registered w - {off}\<rparr> else w)"
| "world_event w (Ev_mmap sz off addr) =
     (if addr \<noteq> MAP_FAILED then w\<lparr>mapped := (addr, off, sz) # unmap (mapped w) addr sz\<rparr>
      else w)"
| "world_event w (Ev_munmap addr sz res) =
     (if res = 0 then w\<lparr>mapped := unmap (mapped w) addr sz\<rparr> else w)"
| "world_event w ev = w"

definition world_after :: "world \<Rightarrow> event list \<Rightarrow> world" where
  "world_after w evs = foldl world_event w evs"







text \<open>Nothing registered or mapped, and the state after the sample remap.\<close>

definition ex_world :: world where
  "ex_world = \<lparr>registered = {}, mapped = []\<rparr>"

definition ex_world1 :: world where
  "ex_world1 = \<lparr>registered = {0x1000}, mapped = [(0x40000000, 0x1000, 12288)]\<rparr>"






section \<open>Reading the events of a call\<close>

text \<open>The events that the loop over the blocks can produce.\<close>

fun is_block_event :: "event \<Rightarrow> bool" where
  "is_block_event (Ev_QUERY_BLK s r) = True"
| "is_block_event (Ev_check_failed c) = True"
| "is_block_event ev = False"

text \<open>
  What an outcome of the resolver says about the geometry: the fault, the abort, or the
  height, width and stride of the block it returns.
\<close>

definition geometry_of ::
  "fault + tiler_block_info option \<Rightarrow> fault + (u16 \<times> u16 \<times> u32) option" where
  "geometry_of r =
     (case r of
        Inl f \<Rightarrow> Inl f
      | Inr None \<Rightarrow> Inr None
      | Inr (Some b) \<Rightarrow> Inr (Some (dim_area_height b, dim_area_width b, stride b)))"

text \<open>
  The geometry of a block \<open>blk\<close>, as the driver reported it, is inconsistent with the
  caller's length \<open>len\<close>: \<open>min_page_width\<close> exceeds \<open>max_page_width\<close> as lowered, or
  \<open>def_size\<close> of the descriptor that lines 237--266 make of the block is not the
  length. For a pixel-format block the divisors that the code meets before the check
  in question (lines 248 and 249, and line 264 before the second check) are not zero,
  so that the check is reached.
\<close>

definition geometry_fault :: "tiler_block_info \<Rightarrow> bytes_t \<Rightarrow> bool" where
  "geometry_fault blk len =
     (if fmt blk = PIXEL_FMT_PAGE then def_size (blk\<lparr>dim_len := len\<rparr>) \<noteq> len
      else max_alloc_size blk \<noteq> 0 \<and> min_alloc_size blk \<noteq> 0 \<and>
           (max_page_width blk len <s min_page_width blk len \<or>
            min_page_width blk len \<noteq> 0 \<and> def_size (resolved_block blk len) \<noteq> len))"

text \<open>The driver pointers that a list of events submits to \<^verbatim>\<open>TILIOC_QUERY_BLK\<close>, in order.\<close>

fun queried :: "event list \<Rightarrow> SSPtr list" where
  "queried [] = []"
| "queried (Ev_QUERY_BLK s r # evs) = s # queried evs"
| "queried (ev # evs) = queried evs"

section \<open>Block-count precondition\<close>

text \<open>
  C5. A call of remap whose \<^verbatim>\<open>num_blocks\<close> is not positive or exceeds
  \<^verbatim>\<open>TILER_MAX_NUM_BLOCKS\<close> returns \<^verbatim>\<open>NULL\<close> at once: no event takes place (the driver
  is not even opened) and the cache is as before.
\<close>

theorem remap_bad_count:
  "n \<le> 0 \<or> TILER_MAX_NUM_BLOCKS k < n \<Longrightarrow>
   tiler_assisted_phase1_D2CReMap k e c n dsptrs lengths = Inr (NULL, c, [])"
  by (auto simp: tiler_assisted_phase1_D2CReMap_def)

theorem remap_bad_count_witness:
  "((0::int) \<le> 0 \<or> TILER_MAX_NUM_BLOCKS ex_consts < 0) \<and>
   tiler_assisted_phase1_D2CReMap ex_consts ex_env ex_cache 0 [] [] = Inr (NULL, ex_cache, []) \<and>
   ((17::int) \<le> 0 \<or> TILER_MAX_NUM_BLOCKS ex_consts < 17) \<and>
   tiler_assisted_phase1_D2CReMap ex_consts ex_env ex_cache 17 [] [] = Inr (NULL, ex_cache, [])"
  using remap_bad_count [of 0 ex_consts ex_env ex_cache "[]" "[]"]
        remap_bad_count [of 17 ex_consts ex_env ex_cache "[]" "[]"]
  by (simp add: ex_consts_def)

section \<open>The loop over the blocks\<close>

lemmas ex_eval = ex_consts_def ex_env_def ex_lengths_def ex_dsptrs_def ex_cache_def
  ex_page_block_def ex_blocks_def ex_remap_events_def ex_cache1_def ex_cache2_def
  remap_blocks.simps remap_block_def zero_block_def Let_def check_size_def CHK_I_def
  def_size_def
  MAP_FAILED_def NULL_def blk_at_def PAGE_SIZE_def remap_cache_add_def init_def

lemma queried_append: "queried (xs @ ys) = queried xs @ queried ys"
  by (induction xs rule: queried.induct) auto

lemma check_size_events:
  "check_size b len evs = (r, evs') \<Longrightarrow> evs' = evs \<or> evs' = evs @ [Ev_check_failed Chk_size]"
  by (auto simp: check_size_def split: flow.splits)

lemma remap_block_Inr:
  assumes "remap_block e ds ls ix = Inr (r, evs)"
  shows "ix < length ds \<and> list_all is_block_event evs \<and>
         (if ds ! ix = 0 then r = None \<and> evs = [] else queried evs = [ds ! ix])"
  using assms
  by (auto simp: remap_block_def Let_def queried_append
           split: if_splits prod.splits sum.splits option.splits
           dest!: check_size_events)

lemma remap_blocks_trace:
  "remap_blocks e n ds ls ix blks sz tr = Inr (ok, blks', sz', tr') \<Longrightarrow>
   \<exists>evs j. tr' = tr @ evs \<and> list_all is_block_event evs \<and> ix \<le> j \<and>
           queried evs = take (j - ix) (drop ix ds) \<and> 0 \<notin> set (queried evs) \<and>
           (ok \<longrightarrow> (\<forall>i. ix \<le> i \<and> i < n \<longrightarrow> i < length ds \<and> ds ! i \<noteq> 0))"
proof (induction e n ds ls ix blks sz tr rule: remap_blocks.induct)
  case (1 e n ds ls ix blks sz tr)
  show ?case
  proof (cases "ix < n")
    case False
    with "1.prems" have "tr' = tr @ []" "ok"
      by (auto simp: remap_blocks.simps [of e n ds ls ix])
    with False show ?thesis
      by (intro exI [of _ "[]"] exI [of _ ix]) auto
  next
    case True
    show ?thesis
    proof (cases "remap_block e ds ls ix")
      case (Inl f)
      with True "1.prems" show ?thesis
        by (simp add: remap_blocks.simps [of e n ds ls ix])
    next
      case (Inr res)
      obtain r evs0 where res: "res = (r, evs0)" by (cases res)
      note blk = remap_block_Inr [OF Inr [unfolded res]]
      show ?thesis
      proof (cases r)
        case None
        with True Inr res "1.prems" have out: "tr' = tr @ evs0" "\<not> ok"
          by (auto simp: remap_blocks.simps [of e n ds ls ix])
        show ?thesis
        proof (cases "ds ! ix = 0")
          case True
          with blk out show ?thesis
            by (intro exI [of _ "[]"] exI [of _ ix]) auto
        next
          case False
          with blk have "queried evs0 = take (Suc ix - ix) (drop ix ds)"
            by (simp add: take_Suc_conv_app_nth Cons_nth_drop_Suc [symmetric])
          with blk out False show ?thesis
            by (intro exI [of _ evs0] exI [of _ "Suc ix"]) auto
        qed
      next
        case (Some b)
        with True Inr res "1.prems"
        have rec: "remap_blocks e n ds ls (ix + 1) (blks @ [b]) (sz + def_size b) (tr @ evs0)
                   = Inr (ok, blks', sz', tr')"
          by (auto simp: remap_blocks.simps [of e n ds ls ix])
        from "1.IH" [OF True Inr res [symmetric] Some rec]
        obtain evs1 j where ih: "tr' = (tr @ evs0) @ evs1" "list_all is_block_event evs1"
          "ix + 1 \<le> j" "queried evs1 = take (j - (ix + 1)) (drop (ix + 1) ds)"
          "0 \<notin> set (queried evs1)"
          "ok \<longrightarrow> (\<forall>i. ix + 1 \<le> i \<and> i < n \<longrightarrow> i < length ds \<and> ds ! i \<noteq> 0)"
          by blast
        from blk Some have nz: "ds ! ix \<noteq> 0" and q0: "queried evs0 = [ds ! ix]"
          by (auto split: if_splits)
        from ih(3) obtain d where d: "j - ix = Suc d" "j - (ix + 1) = d"
          by (cases "j - ix") auto
        have q: "queried (evs0 @ evs1) = take (j - ix) (drop ix ds)"
          using blk q0 ih(4) d
          by (simp add: queried_append Cons_nth_drop_Suc [symmetric])
        have all: "ok \<longrightarrow> (\<forall>i. ix \<le> i \<and> i < n \<longrightarrow> i < length ds \<and> ds ! i \<noteq> 0)"
        proof (intro impI allI)
          fix i assume "ok" "ix \<le> i \<and> i < n"
          with ih(6) nz blk show "i < length ds \<and> ds ! i \<noteq> 0"
            by (cases "i = ix") auto
        qed
        have nzq: "0 \<notin> set (queried (evs0 @ evs1))"
          using q0 nz ih(5) by (simp add: queried_append)
        from ih(1,2,3) blk have "tr' = tr @ (evs0 @ evs1)" "list_all is_block_event (evs0 @ evs1)"
          "ix \<le> j"
          by auto
        with q nzq all show ?thesis
          by blast
      qed
    qed
  qed
qed

lemma remap_block_zero:
  "ix < length ds \<Longrightarrow> ds ! ix = 0 \<Longrightarrow> remap_block e ds ls ix = Inr (None, [])"
  by (simp add: remap_block_def)

lemma remap_blocks_fails:
  "ix \<le> j \<Longrightarrow> j < n \<Longrightarrow> remap_block e ds ls j = Inr (None, evs0) \<Longrightarrow>
   \<forall>i. ix \<le> i \<and> i < j \<longrightarrow> \<not> isl (remap_block e ds ls i) \<Longrightarrow>
   \<exists>blks' sz' tr'. remap_blocks e n ds ls ix blks sz tr = Inr (False, blks', sz', tr')"
proof (induction e n ds ls ix blks sz tr rule: remap_blocks.induct)
  case (1 e n ds ls ix blks sz tr)
  from "1.prems" have lt: "ix < n" by simp
  show ?case
  proof (cases "ix = j")
    case True
    with "1.prems" lt show ?thesis
      by (simp add: remap_blocks.simps [of e n ds ls j])
  next
    case False
    with "1.prems" have "\<not> isl (remap_block e ds ls ix)" by simp
    then obtain r evs where res: "remap_block e ds ls ix = Inr (r, evs)"
      by (cases "remap_block e ds ls ix") auto
    show ?thesis
    proof (cases r)
      case None
      with res lt show ?thesis
        by (simp add: remap_blocks.simps [of e n ds ls ix])
    next
      case (Some b)
      from False "1.prems" have "ix + 1 \<le> j"
        and "\<forall>i. ix + 1 \<le> i \<and> i < j \<longrightarrow> \<not> isl (remap_block e ds ls i)"
        by auto
      from "1.IH" [OF lt res refl Some this(1) "1.prems"(2,3) this(2)]
      show ?thesis
        using res lt Some by (simp add: remap_blocks.simps [of e n ds ls ix])
    qed
  qed
qed

text \<open>
  A body that leaves through \<^verbatim>\<open>FAIL\<close> at block \<open>j\<close> ends the call: nothing but the
  events of the loop lies between the opening and the closing of the session.
\<close>

lemma remap_aborts:
  assumes "0 < n" "n \<le> TILER_MAX_NUM_BLOCKS k" "0 \<le> sys_open e"
    and "j < nat n" "remap_block e dsptrs lengths j = Inr (None, evs0)"
    and "list_all (\<lambda>i. \<not> isl (remap_block e dsptrs lengths i)) [0..<j]"
  shows "\<exists>evs. tiler_assisted_phase1_D2CReMap k e c n dsptrs lengths
                 = Inr (NULL, c, Ev_open (sys_open e) # evs @ [Ev_close]) \<and>
               list_all is_block_event evs"
proof -
  from assms(6) have "\<forall>i. 0 \<le> i \<and> i < j \<longrightarrow> \<not> isl (remap_block e dsptrs lengths i)"
    by (simp add: list_all_iff)
  from remap_blocks_fails [OF _ assms(4,5) this, of "[]" 0 "[Ev_open (sys_open e)]"]
  obtain blks' sz' tr' where
    loop: "remap_blocks e (nat n) dsptrs lengths 0 [] 0 [Ev_open (sys_open e)]
           = Inr (False, blks', sz', tr')"
    by auto
  from remap_blocks_trace [OF loop] obtain evs where
    "tr' = [Ev_open (sys_open e)] @ evs" "list_all is_block_event evs"
    by blast
  with loop assms(1,2,3) show ?thesis
    by (simp add: tiler_assisted_phase1_D2CReMap_def)
qed

section \<open>Translation faults\<close>

text \<open>
  C6. Let the block count be valid and the driver open. If the device pointer of some
  block \<open>j\<close> is zero, and the blocks before it do not stop the process (no division by
  zero in the resolver, no read past the arrays), then remap returns \<^verbatim>\<open>NULL\<close>, leaves the
  cache as it was, and its events are the opening of the session, then block queries
  and reports of failed checks only (so no registration, no mapping), then the closing
  of the session.
\<close>

theorem remap_translation_fault:
  assumes "0 < n" "n \<le> TILER_MAX_NUM_BLOCKS k" "0 \<le> sys_open e"
    and "j < nat n" "j < length dsptrs" "dsptrs ! j = 0"
    and "list_all (\<lambda>i. \<not> isl (remap_block e dsptrs lengths i)) [0..<j]"
  shows "\<exists>evs. tiler_assisted_phase1_D2CReMap k e c n dsptrs lengths
                 = Inr (NULL, c, Ev_open (sys_open e) # evs @ [Ev_close]) \<and>
               list_all is_block_event evs"
  using remap_aborts [OF assms(1,2,3,4) remap_block_zero [OF assms(5,6)] assms(7)] .

theorem remap_translation_fault_witness:
  "(0::int) < 2 \<and> 2 \<le> TILER_MAX_NUM_BLOCKS ex_consts \<and> 0 \<le> sys_open ex_env \<and>
   (1::nat) < nat 2 \<and> 1 < length [0x80000010, 0 :: DSPtr] \<and> [0x80000010, 0 :: DSPtr] ! 1 = 0 \<and>
   list_all (\<lambda>i. \<not> isl (remap_block ex_env [0x80000010, 0] ex_lengths i)) [0..<1] \<and>
   tiler_assisted_phase1_D2CReMap ex_consts ex_env ex_cache 2 [0x80000010, 0] ex_lengths
     = Inr (NULL, ex_cache, [Ev_open 3, Ev_QUERY_BLK 0x80000010 0, Ev_close])"
proof -
  have h: "list_all (\<lambda>i. \<not> isl (remap_block ex_env [0x80000010, 0] ex_lengths i)) [0..<1]"
    by (simp add: ex_eval)
  have run: "tiler_assisted_phase1_D2CReMap ex_consts ex_env ex_cache 2 [0x80000010, 0] ex_lengths
     = Inr (NULL, ex_cache, [Ev_open 3, Ev_QUERY_BLK 0x80000010 0, Ev_close])"
    using remap_translation_fault [of 2 ex_consts ex_env 1 "[0x80000010, 0]" ex_lengths ex_cache,
            OF _ _ _ _ _ _ h]
    by (simp add: tiler_assisted_phase1_D2CReMap_def ex_eval)
  from h run show ?thesis
    by (simp add: ex_consts_def ex_env_def)
qed

text \<open>
  C10. The driver pointer is the device pointer: the loop body leaves through the
  translation fault (\<^verbatim>\<open>goto FAIL\<close> before any query) exactly when \<^verbatim>\<open>dsptrs[ix]\<close> is
  zero, and the pointers that a returning call submits to \<^verbatim>\<open>TILIOC_QUERY_BLK\<close> are, in
  order, the first entries of \<^verbatim>\<open>dsptrs\<close> themselves, none of them zero.
\<close>

theorem remap_translation_identity:
  "((remap_block e dsptrs lengths ix = Inr (None, [])) = (ix < length dsptrs \<and> dsptrs ! ix = 0)) \<and>
   (\<forall>p c' tr. tiler_assisted_phase1_D2CReMap k e c n dsptrs lengths = Inr (p, c', tr) \<longrightarrow>
      (\<exists>j. queried tr = take j dsptrs) \<and> 0 \<notin> set (queried tr))"
proof (intro conjI allI impI)
  show "(remap_block e dsptrs lengths ix = Inr (None, [])) = (ix < length dsptrs \<and> dsptrs ! ix = 0)"
  proof
    assume "remap_block e dsptrs lengths ix = Inr (None, [])"
    from remap_block_Inr [OF this] show "ix < length dsptrs \<and> dsptrs ! ix = 0"
      by (auto split: if_splits)
  qed (simp add: remap_block_zero)
next
  fix p c' tr
  assume run: "tiler_assisted_phase1_D2CReMap k e c n dsptrs lengths = Inr (p, c', tr)"
  have *: "(\<exists>j. queried tr = take j dsptrs) \<and> 0 \<notin> set (queried tr)"
  proof (cases "\<not> (n > 0) \<or> \<not> (n \<le> TILER_MAX_NUM_BLOCKS k) \<or> \<not> (sys_open e \<ge> 0)")
    case True
    with run have "queried tr = take 0 dsptrs"
      by (auto simp: tiler_assisted_phase1_D2CReMap_def split: if_splits)
    then show ?thesis by auto
  next
    case False
    with run obtain ok blks sz tr0 where
      loop: "remap_blocks e (nat n) dsptrs lengths 0 [] 0 [Ev_open (sys_open e)]
             = Inr (ok, blks, sz, tr0)"
      by (cases "remap_blocks e (nat n) dsptrs lengths 0 [] 0 [Ev_open (sys_open e)]")
         (auto simp: tiler_assisted_phase1_D2CReMap_def)
    from remap_blocks_trace [OF loop] obtain evs j where
      tr0: "tr0 = [Ev_open (sys_open e)] @ evs" "queried evs = take (j - 0) (drop 0 dsptrs)"
        "0 \<notin> set (queried evs)"
      by blast
    from run False loop have "queried tr = queried tr0"
      by (auto simp: tiler_assisted_phase1_D2CReMap_def Let_def queried_append
               split: if_splits bool.splits prod.splits)
    with tr0 show ?thesis by auto
  qed
  from * show "\<exists>j. queried tr = take j dsptrs" ..
  from * show "0 \<notin> set (queried tr)" ..
qed

theorem remap_translation_identity_witness:
  "remap_block ex_env [0x80000010, 0] ex_lengths 1 = Inr (None, []) \<and>
   tiler_assisted_phase1_D2CReMap ex_consts ex_env ex_cache 2 ex_dsptrs ex_lengths
     = Inr (0x40000010, ex_cache1,
            ex_remap_events @ [Ev_mmap 12288 0x1000 0x40000000, Ev_close]) \<and>
   queried (ex_remap_events @ [Ev_mmap 12288 0x1000 0x40000000, Ev_close]) = take 2 ex_dsptrs"
  using remap_translation_identity [of ex_env "[0x80000010, 0]" ex_lengths 1 ex_consts ex_cache 2]
        remap_translation_identity [of ex_env ex_dsptrs ex_lengths 0 ex_consts ex_cache 2]
  by (simp add: tiler_assisted_phase1_D2CReMap_def ex_eval)

section \<open>Failure of the mapping\<close>

text \<open>
  C4. Let the block count be valid and the driver open. If the loop resolves every block,
  \<^verbatim>\<open>TILIOC_RBUF\<close> succeeds with a nonzero offset and \<^verbatim>\<open>mmap\<close> returns \<^verbatim>\<open>MAP_FAILED\<close>, then
  remap unregisters the buffer (\<^verbatim>\<open>TILIOC_URBUF\<close> on the registered offset) after the
  failed mapping and before it closes the session, leaves the cache as it was, and
  returns \<^verbatim>\<open>NULL\<close>.
\<close>

theorem remap_mapping_failure:
  assumes "0 < n" "n \<le> TILER_MAX_NUM_BLOCKS k" "0 \<le> sys_open e"
    and "remap_blocks e (nat n) dsptrs lengths 0 [] 0 [Ev_open (sys_open e)]
         = Inr (True, blks, sz, tr)"
    and "TILIOC_RBUF e \<lparr>num_blocks = n, blocks = blks, offset = 0\<rparr> = (0, buf)"
    and "offset buf \<noteq> 0"
    and "sys_mmap e sz (offset buf) = MAP_FAILED"
  shows "tiler_assisted_phase1_D2CReMap k e c n dsptrs lengths
         = Inr (NULL, c,
             tr @ [Ev_RBUF \<lparr>num_blocks = n, blocks = blks, offset = 0\<rparr> 0 (offset buf),
                   Ev_mmap sz (offset buf) MAP_FAILED,
                   Ev_URBUF (offset buf) (TILIOC_URBUF e buf),
                   Ev_close])"
  using assms by (simp add: tiler_assisted_phase1_D2CReMap_def Let_def)

theorem remap_mapping_failure_witness:
  "(0::int) < 2 \<and> 2 \<le> TILER_MAX_NUM_BLOCKS ex_consts \<and> 0 \<le> sys_open ex_env_nomap \<and>
   sys_mmap ex_env_nomap 12288 0x1000 = MAP_FAILED \<and>
   tiler_assisted_phase1_D2CReMap ex_consts ex_env_nomap ex_cache 2 ex_dsptrs ex_lengths
     = Inr (NULL, ex_cache,
         ex_remap_events @ [Ev_mmap 12288 0x1000 MAP_FAILED, Ev_URBUF 0x1000 0, Ev_close])"
proof -
  have loop: "remap_blocks ex_env_nomap (nat 2) ex_dsptrs ex_lengths 0 [] 0
                [Ev_open (sys_open ex_env_nomap)]
              = Inr (True, ex_blocks, 12288,
                     [Ev_open 3, Ev_QUERY_BLK 0x80000010 0, Ev_QUERY_BLK 0x80003000 0])"
    by (simp add: ex_env_nomap_def ex_eval)
  have rbuf: "TILIOC_RBUF ex_env_nomap \<lparr>num_blocks = 2, blocks = ex_blocks, offset = 0\<rparr>
              = (0, \<lparr>num_blocks = 2, blocks = ex_blocks, offset = 0x1000\<rparr>)"
    by (simp add: ex_env_nomap_def ex_env_def)
  have mm: "sys_mmap ex_env_nomap 12288 0x1000 = MAP_FAILED"
    by (simp add: ex_env_nomap_def)
  show ?thesis
    using remap_mapping_failure [of 2 ex_consts ex_env_nomap ex_dsptrs ex_lengths _ _ _ _ ex_cache,
            OF _ _ _ loop rbuf] mm
    by (simp add: ex_env_nomap_def ex_consts_def ex_env_def ex_remap_events_def)
qed

section \<open>Demap\<close>

lemma demap_size_sum:
  "0 \<le> ix \<Longrightarrow> demap_size blks n ix sz
     = sz + sum_list (map (\<lambda>i. def_size (blk_at blks i)) [nat ix..<nat n])"
proof (induction blks n ix sz rule: demap_size.induct)
  case (1 blks n ix sz)
  show ?case
  proof (cases "ix < n")
    case True
    with "1.prems" have "[nat ix..<nat n] = nat ix # [nat (ix + 1)..<nat n]"
      by (simp add: upt_conv_Cons nat_add_distrib)
    with True "1.IH" "1.prems" show ?thesis
      by (simp add: demap_size.simps [of blks n ix] add.assoc)
  next
    case False
    with "1.prems" show ?thesis
      by (simp add: demap_size.simps [of blks n ix])
  qed
qed

lemma round_down_page:
  "unat (ROUND_DOWN_TO2POW p PAGE_SIZE) = unat p div 4096 * 4096"
proof -
  have m: "PAGE_SIZE - 1 = (mask 12 :: u32)"
    by (simp add: PAGE_SIZE_def mask_eq_decr_exp)
  have "p AND NOT (mask 12) = push_bit 12 (drop_bit 12 p)"
    by (rule bit_word_eqI) (auto simp: bit_simps)
  then have "unat (ROUND_DOWN_TO2POW p PAGE_SIZE) = unat (push_bit 12 (drop_bit 12 p))"
    by (simp add: ROUND_DOWN_TO2POW_def m)
  also have "\<dots> = take_bit 32 (push_bit 12 (unat p div 4096))"
    by (simp add: unsigned_push_bit_eq unat_drop_bit_eq drop_bit_eq_div unat_div)
  also have "\<dots> = unat p div 4096 * 4096"
  proof -
    have "unat p < 2 ^ 32" using unsigned_less [of p] by simp
    moreover have "unat p div 4096 * 4096 \<le> unat p"
      by (rule div_times_less_eq_dividend)
    ultimately have "unat p div 4096 * 4096 < 2 ^ 32"
      by (rule le_less_trans [rotated])
    then show ?thesis
      by (simp add: push_bit_eq_mult take_bit_eq_mod)
  qed
  finally show ?thesis .
qed

text \<open>
  C7. Let the session open, the cache hold a nonzero identifier for the pointer and
  \<^verbatim>\<open>TILIOC_QBUF\<close> succeed (with a block count that the array can hold). Then demap
  unregisters and after that unmaps, whatever \<^verbatim>\<open>TILIOC_URBUF\<close> returned: the unmapping
  starts at the pointer rounded down to a multiple of the page size and spans the sum of
  \<open>def_size\<close> over the blocks of the answer. The status returned is \<^verbatim>\<open>ERR_ADD\<close> of
  the two results: an error of the unregistration stays the status, and the status is 0
  only when both results are 0.
\<close>

theorem demap_unmaps:
  assumes "0 \<le> sys_open e"
    and "remap_cache_del c bufPtr = (tiler_id, c1)" "tiler_id \<noteq> 0"
    and "TILIOC_QBUF e \<lparr>num_blocks = 0, blocks = [], offset = tiler_id\<rparr> = (0, buf)"
    and "num_blocks buf \<le> TILER_MAX_NUM_BLOCKS k"
  shows "tiler_assisted_phase1_DeMap k e c bufPtr
         = Inr (ERR_ADD (TILIOC_URBUF e buf)
                  (sys_munmap e (ROUND_DOWN_TO2POW bufPtr PAGE_SIZE) (demap_total buf)),
                c1,
                [Ev_open (sys_open e), Ev_QBUF tiler_id 0,
                 Ev_URBUF (offset buf) (TILIOC_URBUF e buf),
                 Ev_munmap (ROUND_DOWN_TO2POW bufPtr PAGE_SIZE) (demap_total buf)
                   (sys_munmap e (ROUND_DOWN_TO2POW bufPtr PAGE_SIZE) (demap_total buf)),
                 Ev_close]) \<and>
         unat (ROUND_DOWN_TO2POW bufPtr PAGE_SIZE) = unat bufPtr div 4096 * 4096 \<and>
         (TILIOC_URBUF e buf \<noteq> 0 \<longrightarrow>
            ERR_ADD (TILIOC_URBUF e buf)
              (sys_munmap e (ROUND_DOWN_TO2POW bufPtr PAGE_SIZE) (demap_total buf))
            = TILIOC_URBUF e buf) \<and>
         (ERR_ADD (TILIOC_URBUF e buf)
            (sys_munmap e (ROUND_DOWN_TO2POW bufPtr PAGE_SIZE) (demap_total buf)) = 0)
         = (TILIOC_URBUF e buf = 0 \<and>
            sys_munmap e (ROUND_DOWN_TO2POW bufPtr PAGE_SIZE) (demap_total buf) = 0)"
  using assms
  by (simp add: tiler_assisted_phase1_DeMap_def Let_def demap_size_sum demap_total_def
        round_down_page ERR_ADD_def)

theorem demap_unmaps_witness:
  "0 \<le> sys_open ex_env_urbuf \<and>
   remap_cache_del ex_cache1 0x40000010 = (0x1000, ex_cache2) \<and>
   (0x1000 :: u32) \<noteq> 0 \<and>
   TILIOC_QBUF ex_env_urbuf \<lparr>num_blocks = 0, blocks = [], offset = 0x1000\<rparr>
     = (0, \<lparr>num_blocks = 2, blocks = ex_blocks, offset = 0x1000\<rparr>) \<and>
   2 \<le> TILER_MAX_NUM_BLOCKS ex_consts \<and>
   tiler_assisted_phase1_DeMap ex_consts ex_env_urbuf ex_cache1 0x40000010
     = Inr (- 1, ex_cache2,
         [Ev_open 3, Ev_QBUF 0x1000 0, Ev_URBUF 0x1000 (- 1),
          Ev_munmap 0x40000000 12288 0, Ev_close])"
proof -
  have del: "remap_cache_del ex_cache1 0x40000010 = (0x1000, ex_cache2)"
    by (simp add: remap_cache_del_def ex_cache1_def ex_cache2_def init_def)
  have qbuf: "TILIOC_QBUF ex_env_urbuf \<lparr>num_blocks = 0, blocks = [], offset = 0x1000\<rparr>
     = (0, \<lparr>num_blocks = 2, blocks = ex_blocks, offset = 0x1000\<rparr>)"
    by (simp add: ex_env_urbuf_def ex_env_def)
  have tot: "demap_total \<lparr>num_blocks = 2, blocks = ex_blocks, offset = 0x1000\<rparr> = 12288"
    by (simp add: demap_total_def ex_blocks_def ex_page_block_def blk_at_def def_size_def
          upt_conv_Cons)
  have fl: "ROUND_DOWN_TO2POW 0x40000010 PAGE_SIZE = 0x40000000"
    by (simp add: ROUND_DOWN_TO2POW_def PAGE_SIZE_def)
  from demap_unmaps [of ex_env_urbuf ex_cache1 "0x40000010" "0x1000" ex_cache2 _ ex_consts,
         OF _ del _ qbuf]
  have "tiler_assisted_phase1_DeMap ex_consts ex_env_urbuf ex_cache1 0x40000010
     = Inr (- 1, ex_cache2,
         [Ev_open 3, Ev_QBUF 0x1000 0, Ev_URBUF 0x1000 (- 1),
          Ev_munmap 0x40000000 12288 0, Ev_close])"
    by (simp add: tot fl ex_env_urbuf_def ex_env_def ex_consts_def ERR_ADD_def)
  with del qbuf show ?thesis
    by (simp add: ex_env_urbuf_def ex_env_def ex_consts_def)
qed

section \<open>Remap followed by demap\<close>

lemma dlist_del_absent: "p \<notin> fst ` set bs \<Longrightarrow> dlist_del bs p = (0, bs)"
  by (induction bs) auto

lemma dlist_del_append_fresh:
  "p \<notin> fst ` set bs \<Longrightarrow> dlist_del (bs @ [(p, b)]) p = (b, bs)"
  by (induction bs) auto

lemma remap_success:
  assumes "tiler_assisted_phase1_D2CReMap k e c n ds ls = Inr (P, c1, tr)" "P \<noteq> NULL"
  shows "\<exists>B b. B \<noteq> 0 \<and> c1 = remap_cache_add c P B \<and> Ev_RBUF b 0 B \<in> set tr"
  using assms
  by (fastforce simp: tiler_assisted_phase1_D2CReMap_def Let_def
           split: if_splits sum.splits prod.splits bool.splits)

lemma demap_miss:
  assumes "bufs_inited c" "P \<notin> fst ` set (bufs c)"
  shows "remap_cache_del c P = (0, c) \<and>
         tiler_assisted_phase1_DeMap k e c P
         = Inr (REMAP_ERR_GENERIC k, c,
             if 0 \<le> sys_open e then [Ev_open (sys_open e), Ev_close]
             else [Ev_open (sys_open e)])"
  using assms
  by (simp add: tiler_assisted_phase1_DeMap_def remap_cache_del_def init_def dlist_del_absent)

text \<open>
  C1. Let remap return a pointer \<open>P\<close> that is not \<^verbatim>\<open>NULL\<close>, from a cache that held no
  entry for \<open>P\<close>, and let the session of the next demap of \<open>P\<close> open. Then remap has
  cached \<open>P\<close> with the nonzero offset \<open>B\<close> that \<^verbatim>\<open>TILIOC_RBUF\<close> returned; the first demap
  takes the entry out of the cache and hands \<open>B\<close> to \<^verbatim>\<open>TILIOC_QBUF\<close> (it returns with
  the cache \<open>c2\<close>, unless the driver's answer counts more blocks than the array holds);
  \<open>c2\<close> has no entry for \<open>P\<close>; and every further demap of \<open>P\<close> finds nothing
  (\<open>remap_cache_del\<close> returns 0) and returns \<^verbatim>\<open>REMAP_ERR_GENERIC\<close> with no event but
  the opening and closing of the session.
\<close>

theorem remap_demap_once:
  assumes "tiler_assisted_phase1_D2CReMap k e1 c n dsptrs lengths = Inr (P, c1, tr1)"
    and "P \<noteq> NULL"
    and "P \<notin> fst ` set (bufs (init c))"
    and "0 \<le> sys_open e2"
  shows "\<exists>B c2. B \<noteq> 0 \<and> (\<exists>b. Ev_RBUF b 0 B \<in> set tr1) \<and> (P, B) \<in> set (bufs c1) \<and>
           remap_cache_del c1 P = (B, c2) \<and>
           (tiler_assisted_phase1_DeMap k e2 c1 P = Inl Out_of_bounds \<or>
            (\<exists>r q evs. tiler_assisted_phase1_DeMap k e2 c1 P
                      = Inr (r, c2, Ev_open (sys_open e2) # Ev_QBUF B q # evs))) \<and>
           P \<notin> fst ` set (bufs c2) \<and>
           remap_cache_del c2 P = (0, c2) \<and>
           (\<forall>e3. tiler_assisted_phase1_DeMap k e3 c2 P
                 = Inr (REMAP_ERR_GENERIC k, c2,
                     if 0 \<le> sys_open e3 then [Ev_open (sys_open e3), Ev_close]
                     else [Ev_open (sys_open e3)]))"
proof -
  from remap_success [OF assms(1,2)] obtain B b where
    B: "B \<noteq> 0" "c1 = remap_cache_add c P B" "Ev_RBUF b 0 B \<in> set tr1"
    by blast
  define c2 where "c2 = init c"
  have c1: "bufs c1 = bufs c2 @ [(P, B)]" "bufs_inited c1" "bufs_inited c2"
    using B(2) by (auto simp: remap_cache_add_def c2_def init_def Let_def)
  have c1': "c1 = c2\<lparr>bufs := bufs c2 @ [(P, B)]\<rparr>"
    using B(2) by (simp add: remap_cache_add_def c2_def Let_def)
  have fresh: "P \<notin> fst ` set (bufs c2)"
    using assms(3) by (simp add: c2_def)
  have del: "remap_cache_del c1 P = (B, c2)"
    using fresh c1(3)
    by (simp add: remap_cache_del_def init_def Let_def c1' dlist_del_append_fresh)
  have demap: "tiler_assisted_phase1_DeMap k e2 c1 P = Inl Out_of_bounds \<or>
            (\<exists>r q evs. tiler_assisted_phase1_DeMap k e2 c1 P
                      = Inr (r, c2, Ev_open (sys_open e2) # Ev_QBUF B q # evs))"
    using assms(4) del B(1)
    by (auto simp: tiler_assisted_phase1_DeMap_def Let_def split: prod.splits)
  from demap_miss [OF c1(3) fresh] B c1 del demap fresh show ?thesis
    by (intro exI [of _ B] exI [of _ c2]) auto
qed

theorem remap_demap_once_witness:
  "tiler_assisted_phase1_D2CReMap ex_consts ex_env ex_cache 2 ex_dsptrs ex_lengths
     = Inr (0x40000010, ex_cache1,
            ex_remap_events @ [Ev_mmap 12288 0x1000 0x40000000, Ev_close]) \<and>
   (0x40000010 :: voidptr) \<noteq> NULL \<and>
   0x40000010 \<notin> fst ` set (bufs (init ex_cache)) \<and>
   0 \<le> sys_open ex_env \<and>
   remap_cache_del ex_cache1 0x40000010 = (0x1000, ex_cache2) \<and>
   tiler_assisted_phase1_DeMap ex_consts ex_env ex_cache1 0x40000010
     = Inr (0, ex_cache2,
         [Ev_open 3, Ev_QBUF 0x1000 0, Ev_URBUF 0x1000 0,
          Ev_munmap 0x40000000 12288 0, Ev_close]) \<and>
   tiler_assisted_phase1_DeMap ex_consts ex_env ex_cache2 0x40000010
     = Inr (1, ex_cache2, [Ev_open 3, Ev_close])"
proof -
  have remap: "tiler_assisted_phase1_D2CReMap ex_consts ex_env ex_cache 2 ex_dsptrs ex_lengths
     = Inr (0x40000010, ex_cache1,
            ex_remap_events @ [Ev_mmap 12288 0x1000 0x40000000, Ev_close])"
    by (simp add: tiler_assisted_phase1_D2CReMap_def ex_eval)
  have fresh: "0x40000010 \<notin> fst ` set (bufs (init ex_cache))"
    by (simp add: init_def ex_cache_def)
  have del: "remap_cache_del ex_cache1 0x40000010 = (0x1000, ex_cache2)"
    by (simp add: remap_cache_del_def ex_cache1_def ex_cache2_def init_def)
  have demap: "tiler_assisted_phase1_DeMap ex_consts ex_env ex_cache1 0x40000010
     = Inr (0, ex_cache2,
         [Ev_open 3, Ev_QBUF 0x1000 0, Ev_URBUF 0x1000 0,
          Ev_munmap 0x40000000 12288 0, Ev_close])"
    by (simp add: tiler_assisted_phase1_DeMap_def del ex_env_def ex_consts_def Let_def
          demap_size_sum ex_blocks_def ex_page_block_def blk_at_def def_size_def
          upt_conv_Cons ROUND_DOWN_TO2POW_def PAGE_SIZE_def ERR_ADD_def)
  from remap_demap_once [OF remap _ fresh, of ex_env] del
  have "tiler_assisted_phase1_DeMap ex_consts ex_env ex_cache2 0x40000010
     = Inr (1, ex_cache2, [Ev_open 3, Ev_close])"
    by (auto simp: NULL_def ex_env_def ex_consts_def)
  with remap fresh del demap show ?thesis
    by (simp add: NULL_def ex_env_def)
qed

section \<open>Arithmetic of the stride resolution\<close>

lemmas ex_2d_eval = ex_2d_block_def resolve_stride_def CHK_I_def resolved_block_def
  max_alloc_size_def
  min_alloc_size_def min_page_width_def max_page_width_def PAGE_SIZE_def def_bpp_def
  def_size_def def_stride_def Let_def word_sless_alt word_sle_eq

lemma unat_ucast_16_32: "unat (ucast (x :: u16) :: u32) = unat x"
proof -
  have "unat x < 2 ^ 16" using unsigned_less [of x] by simp
  then have "unat x < 2 ^ 32" by simp
  then show ?thesis by (simp add: unsigned_ucast_eq take_bit_eq_mod)
qed

lemma unat_ucast_32_16: "unat (ucast (x :: u32) :: u16) = unat x mod 65536"
  by (simp add: unsigned_ucast_eq take_bit_eq_mod)

lemma unat_lt_16: "unat (x :: u16) < 65536"
  using unsigned_less [of x] by simp

lemma unat_lt_32: "unat (x :: u32) < 4294967296"
  using unsigned_less [of x] by simp

lemma sint_small:
  assumes "unat (x :: u32) < 2147483648"
  shows "sint x = int (unat x)"
proof -
  from assms have "nat (uint x) < 2147483648" unfolding unat_eq_nat_uint .
  then have "uint x < 2147483648" by linarith
  then have "uint x < 2 ^ 31" by simp
  moreover have "- (2 ^ 31) \<le> uint x"
    by (rule order_trans [of _ 0]) simp_all
  ultimately have "signed_take_bit 31 (uint x) = uint x"
    by (rule signed_take_bit_int_eq_self [rotated])
  then show ?thesis by (simp add: sint_uint)
qed

lemma unat_max_alloc: "unat (max_alloc_size blk) = unat (dim_area_height blk) * 4096"
proof -
  have "unat (dim_area_height blk) * 4096 < 2 ^ 32"
    using unat_lt_16 [of "dim_area_height blk"] by simp
  then show ?thesis
    by (simp add: max_alloc_size_def PAGE_SIZE_def unat_word_ariths unat_ucast_16_32)
qed

text \<open>The rounded-up quotient of line 248 is the exact one whenever it is not zero.\<close>

lemma unat_min_page_width:
  assumes "max_alloc_size blk \<noteq> 0" "min_page_width blk len \<noteq> 0"
  shows "unat (min_page_width blk len)
         = (unat len + unat (max_alloc_size blk) - 1) div unat (max_alloc_size blk)"
proof -
  let ?M = "unat (max_alloc_size blk)" and ?L = "unat len"
  have M: "0 < ?M" using assms(1) by (simp add: unat_gt_0)
  have "uint (len + max_alloc_size blk - 1)
        = (uint len + uint (max_alloc_size blk) - 1) mod 2 ^ 32"
    by (simp add: uint_word_ariths mod_simps)
  moreover have "uint len + uint (max_alloc_size blk) - 1 = int (?L + ?M - 1)"
    using M by (simp add: of_nat_diff)
  ultimately have "int (unat (len + max_alloc_size blk - 1)) = int ((?L + ?M - 1) mod 2 ^ 32)"
    by (simp add: zmod_int)
  then have s: "unat (len + max_alloc_size blk - 1) = (?L + ?M - 1) mod 2 ^ 32"
    by (rule of_nat_eq_iff [THEN iffD1])
  have nz: "unat (len + max_alloc_size blk - 1) div ?M \<noteq> 0"
    using assms(2) by (simp add: min_page_width_def unat_div flip: unat_eq_zero) 
  have "?L + ?M - 1 < 2 ^ 32"
  proof (rule ccontr)
    assume "\<not> ?L + ?M - 1 < 2 ^ 32"
    moreover have "?L + ?M - 1 < 2 * 2 ^ 32"
      using unat_lt_32 [of len] unat_lt_32 [of "max_alloc_size blk"] by simp
    ultimately have "(?L + ?M - 1) mod 2 ^ 32 = ?L + ?M - 1 - 2 ^ 32"
      by (simp add: mod_if) 
    with s have "unat (len + max_alloc_size blk - 1) < ?M"
      using unat_lt_32 [of len] M by simp
    with nz show False by simp
  qed
  with s show ?thesis
    by (simp add: min_page_width_def unat_div)
qed

lemma unat_def_stride: "unat (def_stride x) = (4095 + unat x) div 4096 * 4096"
proof -
  have "unat (4095 + (ucast x :: u32)) = 4095 + unat x"
    using unat_lt_16 [of x] by (simp add: unat_word_ariths unat_ucast_16_32)
  moreover have "def_stride x = ROUND_DOWN_TO2POW (4095 + ucast x) PAGE_SIZE"
    by (simp add: def_stride_def ROUND_DOWN_TO2POW_def PAGE_SIZE_def)
  ultimately show ?thesis by (simp add: round_down_page)
qed

lemma unat_def_bpp:
  "unat (def_bpp f) = (if f = PIXEL_FMT_32BIT then 4 else if f = PIXEL_FMT_16BIT then 2 else 1)"
  by (simp add: def_bpp_def)

lemma ceil_div_mult_ge:
  fixes L M :: nat
  assumes "0 < M"
  shows "L \<le> (L + M - 1) div M * M"
proof -
  have "(L + M - 1) div M * M + (L + M - 1) mod M = L + M - 1" by simp
  moreover have "(L + M - 1) mod M < M" using assms by simp
  ultimately show ?thesis by linarith
qed

lemma ceil_div_mult_lt:
  fixes L M :: nat
  assumes "0 < M"
  shows "(L + M - 1) div M * M < L + M"
proof -
  have "(L + M - 1) div M * M \<le> L + M - 1" by (rule div_times_less_eq_dividend)
  with assms show ?thesis by linarith
qed

lemma mpw_lt:
  assumes "max_alloc_size blk \<noteq> 0"
  shows "unat (min_page_width blk len) < 1048576"
proof -
  from assms have "0 < unat (dim_area_height blk)"
    by (simp add: unat_max_alloc flip: unat_gt_0)
  then have "4096 \<le> unat (max_alloc_size blk)" by (simp add: unat_max_alloc)
  then have "unat (len + max_alloc_size blk - 1) div unat (max_alloc_size blk)
             \<le> unat (len + max_alloc_size blk - 1) div 4096"
    by (rule div_le_mono2 [rotated]) simp
  also have "\<dots> < 1048576"
    using unat_lt_32 [of "len + max_alloc_size blk - 1"] by simp
  finally show ?thesis by (simp add: min_page_width_def unat_div)
qed

lemma width_pages_le: "sint (ucast (w :: u16) div PAGE_SIZE :: u32) \<le> 15"
proof -
  have "unat (ucast w div PAGE_SIZE :: u32) = unat w div 4096"
    by (simp add: unat_div unat_ucast_16_32 PAGE_SIZE_def)
  moreover have "unat w div 4096 \<le> 15" using unat_lt_16 [of w] by simp
  ultimately show ?thesis by (simp add: sint_small)
qed

lemma max_page_width_le: "sint (max_page_width blk len) \<le> 15"
  using width_pages_le [of "dim_area_width blk"]
  by (auto simp: max_page_width_def Let_def word_sless_alt)

lemma chk_page_width_small:
  assumes "max_alloc_size blk \<noteq> 0" "min_page_width blk len \<le>s max_page_width blk len"
  shows "unat (min_page_width blk len) \<le> 15"
proof -
  have "sint (min_page_width blk len) = int (unat (min_page_width blk len))"
    using mpw_lt [OF assms(1), of len] by (intro sint_small) simp
  with assms(2) max_page_width_le [of blk len]
  have "uint (min_page_width blk len) \<le> 15"
    by (simp add: word_sle_eq)
  then show ?thesis
    unfolding unat_eq_nat_uint by linarith
qed

lemma unat_page_mpw:
  assumes "unat (k :: u32) \<le> 15"
  shows "unat (PAGE_SIZE * k) = 4096 * unat k"
proof -
  from assms have "4096 * unat k < 2 ^ 32" by simp
  then show ?thesis by (simp add: PAGE_SIZE_def unat_word_ariths)
qed

lemma resolved_height:
  assumes "max_alloc_size blk \<noteq> 0" "min_page_width blk len \<noteq> 0"
  shows "unat (dim_area_height (resolved_block blk len))
         = unat len div 4096 div unat (min_page_width blk len)"
proof -
  let ?k = "unat (min_page_width blk len)" and ?h = "unat (dim_area_height blk)"
  have k: "0 < ?k" using assms(2) by (simp add: unat_gt_0)
  have M: "0 < ?h * 4096" using assms(1) by (simp add: unat_max_alloc flip: unat_gt_0)
  have "unat len \<le> ?k * (?h * 4096)"
    using ceil_div_mult_ge [OF M, of "unat len"] unat_min_page_width [OF assms]
    by (simp add: unat_max_alloc)
  then have "unat len div (4096 * ?k) \<le> (?k * (?h * 4096)) div (4096 * ?k)"
    by (rule div_le_mono)
  also have "(?k * (?h * 4096)) div (4096 * ?k) = ?h"
    using k by simp
  finally have "unat len div 4096 div ?k < 65536"
    using unat_lt_16 [of "dim_area_height blk"] by (simp add: div_mult2_eq)
  then show ?thesis
    by (simp add: resolved_block_def unat_ucast_32_16 unat_div PAGE_SIZE_def)
qed

lemma resolved_width:
  assumes "unat (min_page_width blk len) \<le> 15"
  shows "unat (dim_area_width (resolved_block blk len))
         = 4096 * unat (min_page_width blk len) div unat (def_bpp (fmt blk))"
proof -
  have "4096 * unat (min_page_width blk len) div unat (def_bpp (fmt blk)) < 65536"
    using assms by (simp add: unat_def_bpp less_Suc_eq_le div_le_dividend le_less_trans)
  then show ?thesis
    by (simp add: resolved_block_def unat_ucast_32_16 unat_div unat_page_mpw [OF assms])
qed

lemma resolved_size:
  assumes "fmt blk \<noteq> PIXEL_FMT_PAGE"
    and "max_alloc_size blk \<noteq> 0" "min_page_width blk len \<noteq> 0"
    and "unat (min_page_width blk len) \<le> 15"
  shows "unat (def_size (resolved_block blk len))
         = unat len div 4096 div unat (min_page_width blk len)
           * (4096 * unat (min_page_width blk len))"
proof -
  let ?k = "unat (min_page_width blk len)"
  let ?b = "resolved_block blk len"
  let ?H = "unat len div 4096 div ?k"
  have f: "fmt ?b = fmt blk" by (simp add: resolved_block_def)
  have w: "unat (dim_area_width ?b) * unat (def_bpp (fmt blk)) = 4096 * ?k"
    by (simp add: resolved_width [OF assms(4)] unat_def_bpp)
  have "4096 * ?k < 65536" using assms(4) by simp
  with w have "unat (ucast (ucast (dim_area_width ?b) * def_bpp (fmt blk) :: u32) :: u16) = 4096 * ?k"
    by (simp add: unat_ucast_32_16 unat_word_ariths unat_ucast_16_32)
  then have st: "unat (def_stride (ucast (ucast (dim_area_width ?b) * def_bpp (fmt blk) :: u32))) = 4096 * ?k"
    by (simp add: unat_def_stride)
  have "?H * (4096 * ?k) \<le> unat len"
    by (simp add: div_mult2_eq [symmetric] )
  moreover have "unat len < 2 ^ 32"
    using unat_lt_32 [of len] by simp
  ultimately have "?H * (4096 * ?k) < 2 ^ 32"
    by (rule le_less_trans)
  then show ?thesis
    using assms(1) st resolved_height [OF assms(2,3)]
    by (simp add: def_size_def f unat_word_ariths unat_ucast_16_32)
qed

lemma sint_nonneg:
  assumes "0 \<le> sint (x :: u32)"
  shows "sint x = uint x"
proof -
  have "sint x < 2 ^ 31" using sint_lt [of x] by simp
  then have "sint x < 2 ^ 32" by simp
  with assms have "take_bit 32 (sint x) = sint x"
    by (simp add: take_bit_int_eq_self)
  then show ?thesis using uint_sint [of x] by simp
qed

lemma chk_page_width_le:
  assumes "max_alloc_size blk \<noteq> 0" "min_page_width blk len \<le>s max_page_width blk len"
  shows "unat (min_page_width blk len) \<le> unat (max_page_width blk len)"
proof -
  have s: "sint (min_page_width blk len) = uint (min_page_width blk len)"
    using mpw_lt [OF assms(1), of len] sint_small [of "min_page_width blk len"] by simp
  with assms(2) have le: "uint (min_page_width blk len) \<le> sint (max_page_width blk len)"
    by (simp add: word_sle_eq)
  then have "0 \<le> sint (max_page_width blk len)"
    by (rule order_trans [rotated]) simp
  then have "sint (max_page_width blk len) = uint (max_page_width blk len)"
    by (rule sint_nonneg)
  with le have "uint (min_page_width blk len) \<le> uint (max_page_width blk len)" by simp
  then show ?thesis
    unfolding unat_eq_nat_uint by (rule nat_mono)
qed

section \<open>The resolver and \<open>def_size\<close>\<close>

text \<open>
  When the resolver completes on a pixel-format block, \<open>def_size\<close> of the block it
  leaves is the length rounded down to a multiple of \<open>4096 * min_page_width\<close>: it is
  the length exactly when the length is such a multiple.
\<close>

lemma def_size_resolved_block:
  assumes "fmt blk \<noteq> PIXEL_FMT_PAGE" "max_alloc_size blk \<noteq> 0" "min_page_width blk len \<noteq> 0"
    and "min_page_width blk len \<le>s max_page_width blk len"
  shows "unat (def_size (resolved_block blk len))
           = unat len div 4096 div unat (min_page_width blk len)
             * (4096 * unat (min_page_width blk len))"
    and "(def_size (resolved_block blk len) = len)
           = (4096 * unat (min_page_width blk len) dvd unat len)"
proof -
  let ?k = "unat (min_page_width blk len)"
  from assms have k: "?k \<le> 15" by (simp add: chk_page_width_small)
  from assms k show sz: "unat (def_size (resolved_block blk len))
        = unat len div 4096 div ?k * (4096 * ?k)"
    by (simp add: resolved_size)
  have "(unat (def_size (resolved_block blk len)) = unat len) = (4096 * ?k dvd unat len)"
    unfolding sz div_mult2_eq [symmetric]
    by (metis dvd_div_mult_self dvd_triv_right)
  then show "(def_size (resolved_block blk len) = len) = (4096 * ?k dvd unat len)"
    by (simp add: word_unat_eq_iff)
qed

text \<open>
  C2. The code at the 8-bit block \<open>ex_tall_block\<close> (three pages by 65 rows of 798720
  bytes, reported by the driver as 12288 x 128) and its length 798720: the divisors are
  not zero, \<open>min_page_width\<close> is 2 and \<open>max_page_width\<close> is 3, so that the check of
  line 256 holds and the resolver completes. It leaves a block of two pages by 97 rows,
  and \<open>def_size\<close> of that block is 794624, not 798720: the comparison of line 268
  does not hold.
\<close>

theorem resolver_not_inverse:
  "fmt ex_tall_block \<noteq> PIXEL_FMT_PAGE \<and>
   max_alloc_size ex_tall_block = 524288 \<and> min_alloc_size ex_tall_block = 266240 \<and>
   min_page_width ex_tall_block 798720 = 2 \<and> max_page_width ex_tall_block 798720 = 3 \<and>
   resolve_stride ex_tall_block 798720
     = Inr (Some (ex_tall_block\<lparr>dim_area_height := 97, dim_area_width := 8192,
                                 stride := 8192\<rparr>)) \<and>
   def_size (ex_tall_block\<lparr>dim_area_height := 97, dim_area_width := 8192, stride := 8192\<rparr>)
     = 794624 \<and>
   (794624 :: bytes_t) \<noteq> 798720"
  by (simp add: ex_tall_block_def resolve_stride_def CHK_I_def resolved_block_def
        max_alloc_size_def min_alloc_size_def min_page_width_def max_page_width_def
        PAGE_SIZE_def def_bpp_def def_size_def def_stride_def Let_def word_sless_alt
        word_sle_eq)

section \<open>Stride resolution\<close>

lemma resolve_stride_Some:
  "(resolve_stride blk len = Inr (Some b))
   = (max_alloc_size blk \<noteq> 0 \<and> min_alloc_size blk \<noteq> 0 \<and>
      min_page_width blk len \<le>s max_page_width blk len \<and> min_page_width blk len \<noteq> 0 \<and>
      b = resolved_block blk len)"
  by (auto simp: resolve_stride_def CHK_I_def)

lemma resolve_stride_same:
  fixes blk blk2 :: tiler_block_info
  assumes "fmt blk2 = fmt blk" "dim_area_width blk2 = dim_area_width blk"
    "dim_area_height blk2 = dim_area_height blk"
  shows "geometry_of (resolve_stride blk2 len) = geometry_of (resolve_stride blk len)"
proof -
  from assms have a: "max_alloc_size blk2 = max_alloc_size blk"
    "min_alloc_size blk2 = min_alloc_size blk"
    by (simp_all add: max_alloc_size_def min_alloc_size_def)
  with assms have w: "min_page_width blk2 len = min_page_width blk len"
    "max_page_width blk2 len = max_page_width blk len"
    by (simp_all add: min_page_width_def max_page_width_def)
  from assms a w show ?thesis
    by (simp add: resolve_stride_def CHK_I_def geometry_of_def resolved_block_def)
qed

text \<open>
  C3. The outcome of the resolver (the fault, the abort, or the height, width and stride
  that it sets) is the same for any two blocks that agree on format, reported width and
  reported height, at the same length. The resolver completes exactly when the divisors
  are not zero and the check of line 256 holds. Whenever it completes, the block it
  returns is the block given with height \<open>len / 4096 / min_page_width\<close>, width
  \<open>4096 * min_page_width / def_bpp\<close> and stride equal to the width, all stored
  without loss; \<open>min_page_width\<close> is \<open>len / (height * 4096)\<close> rounded up (the least
  \<open>k\<close> with \<open>len \<le> k * height * 4096\<close>); and \<open>min_page_width\<close>, the page width it
  uses, is at most \<open>max_page_width\<close>: of two that differ it is the smaller.
\<close>

theorem stride_resolution:
  "(\<forall>blk2. fmt blk2 = fmt blk \<and> dim_area_width blk2 = dim_area_width blk \<and>
           dim_area_height blk2 = dim_area_height blk \<longrightarrow>
      geometry_of (resolve_stride blk2 len) = geometry_of (resolve_stride blk len)) \<and>
   ((\<exists>b. resolve_stride blk len = Inr (Some b))
    = (max_alloc_size blk \<noteq> 0 \<and> min_alloc_size blk \<noteq> 0 \<and>
       min_page_width blk len \<le>s max_page_width blk len \<and> min_page_width blk len \<noteq> 0)) \<and>
   (\<forall>b. resolve_stride blk len = Inr (Some b) \<longrightarrow>
      b = blk\<lparr>dim_area_height := dim_area_height b, dim_area_width := dim_area_width b,
              stride := stride b\<rparr> \<and>
      unat (min_page_width blk len)
        = (unat len + unat (dim_area_height blk) * 4096 - 1)
          div (unat (dim_area_height blk) * 4096) \<and>
      unat len \<le> unat (min_page_width blk len) * (unat (dim_area_height blk) * 4096) \<and>
      unat (min_page_width blk len) * (unat (dim_area_height blk) * 4096)
        < unat len + unat (dim_area_height blk) * 4096 \<and>
      unat (min_page_width blk len) \<le> unat (max_page_width blk len) \<and>
      unat (dim_area_height b) = unat len div 4096 div unat (min_page_width blk len) \<and>
      unat (dim_area_width b)
        = 4096 * unat (min_page_width blk len) div unat (def_bpp (fmt blk)) \<and>
      unat (stride b) = unat (dim_area_width b))"
proof (intro conjI allI impI)
  fix blk2 :: tiler_block_info
  assume "fmt blk2 = fmt blk \<and> dim_area_width blk2 = dim_area_width blk \<and>
           dim_area_height blk2 = dim_area_height blk"
  then show "geometry_of (resolve_stride blk2 len) = geometry_of (resolve_stride blk len)"
    by (intro resolve_stride_same) simp_all
next
  show "(\<exists>b. resolve_stride blk len = Inr (Some b))
    = (max_alloc_size blk \<noteq> 0 \<and> min_alloc_size blk \<noteq> 0 \<and>
       min_page_width blk len \<le>s max_page_width blk len \<and> min_page_width blk len \<noteq> 0)"
    by (simp add: resolve_stride_Some)
next
  fix b
  assume "resolve_stride blk len = Inr (Some b)"
  then have h: "max_alloc_size blk \<noteq> 0" "min_page_width blk len \<le>s max_page_width blk len"
    "min_page_width blk len \<noteq> 0" and b: "b = resolved_block blk len"
    by (simp_all add: resolve_stride_Some)
  let ?M = "unat (dim_area_height blk) * 4096"
  have M: "0 < ?M" using h(1) by (simp add: unat_max_alloc flip: unat_gt_0)
  have k: "unat (min_page_width blk len) = (unat len + ?M - 1) div ?M"
    using unat_min_page_width [OF h(1,3)] by (simp add: unat_max_alloc)
  have small: "unat (min_page_width blk len) \<le> 15"
    by (rule chk_page_width_small [OF h(1,2)])
  show "b = blk\<lparr>dim_area_height := dim_area_height b, dim_area_width := dim_area_width b,
              stride := stride b\<rparr>"
    by (simp add: b resolved_block_def)
  show "unat (min_page_width blk len) = (unat len + ?M - 1) div ?M"
    by (rule k)
  show "unat len \<le> unat (min_page_width blk len) * ?M"
    unfolding k by (rule ceil_div_mult_ge [OF M])
  show "unat (min_page_width blk len) * ?M < unat len + ?M"
    unfolding k by (rule ceil_div_mult_lt [OF M])
  show "unat (min_page_width blk len) \<le> unat (max_page_width blk len)"
    by (rule chk_page_width_le [OF h(1,2)])
  show "unat (dim_area_height b) = unat len div 4096 div unat (min_page_width blk len)"
    unfolding b by (rule resolved_height [OF h(1,3)])
  show w: "unat (dim_area_width b)
        = 4096 * unat (min_page_width blk len) div unat (def_bpp (fmt blk))"
    unfolding b by (rule resolved_width [OF small])
  show "unat (stride b) = unat (dim_area_width b)"
    by (simp add: b resolved_block_def unat_ucast_16_32)
qed

theorem stride_resolution_witness:
  "fmt (ex_2d_block\<lparr>ssptr := 0, stride := 5\<rparr>) = fmt ex_2d_block \<and>
   dim_area_width (ex_2d_block\<lparr>ssptr := 0, stride := 5\<rparr>) = dim_area_width ex_2d_block \<and>
   dim_area_height (ex_2d_block\<lparr>ssptr := 0, stride := 5\<rparr>) = dim_area_height ex_2d_block \<and>
   geometry_of (resolve_stride (ex_2d_block\<lparr>ssptr := 0, stride := 5\<rparr>) 262145)
     = Inr (Some (32, 8192, 8192)) \<and>
   geometry_of (resolve_stride ex_2d_block 262145) = Inr (Some (32, 8192, 8192)) \<and>
   resolve_stride ex_2d_block 262145
     = Inr (Some (ex_2d_block\<lparr>dim_area_height := 32, dim_area_width := 8192,
                               stride := 8192\<rparr>)) \<and>
   min_page_width ex_2d_block 262145 = 2 \<and> max_page_width ex_2d_block 262145 = 2 \<and>
   (262145 + 64 * 4096 - 1) div (64 * 4096) = (2::nat) \<and>
   resolve_stride ex_2d_block 4097
     = Inr (Some (ex_2d_block\<lparr>dim_area_height := 1, dim_area_width := 4096,
                               stride := 4096\<rparr>)) \<and>
   min_page_width ex_2d_block 4097 = 1 \<and> max_page_width ex_2d_block 4097 = 2"
  using stride_resolution [of ex_2d_block 262145] stride_resolution [of ex_2d_block 4097]
  by (simp add: ex_2d_eval geometry_of_def)

section \<open>Geometry checks\<close>

lemma geometry_fault_block:
  assumes "j < length ds" "j < length ls" "ds ! j \<noteq> 0"
    and "TILIOC_QUERY_BLK e (zero_block\<lparr>ssptr := ds ! j\<rparr>) = (0, blk)" "ssptr blk \<noteq> 0"
    and "geometry_fault blk (ls ! j)"
  shows "\<exists>evs. remap_block e ds ls j = Inr (None, evs)"
proof (cases "fmt blk = PIXEL_FMT_PAGE")
  case True
  with assms(6) show ?thesis
    by (simp add: geometry_fault_def def_size_def)
next
  case False
  with assms(6) have d: "max_alloc_size blk \<noteq> 0" "min_alloc_size blk \<noteq> 0"
    and f: "max_page_width blk (ls ! j) <s min_page_width blk (ls ! j) \<or>
            min_page_width blk (ls ! j) \<noteq> 0 \<and> def_size (resolved_block blk (ls ! j)) \<noteq> ls ! j"
    by (simp_all add: geometry_fault_def)
  show ?thesis
  proof (cases "min_page_width blk (ls ! j) \<le>s max_page_width blk (ls ! j)")
    case w: False
    with d have "resolve_stride blk (ls ! j) = Inr None"
      by (simp add: resolve_stride_def CHK_I_def)
    with assms(1,2,3,4,5) False show ?thesis
      by (simp add: remap_block_def zero_block_def Let_def)
  next
    case w: True
    with f have "min_page_width blk (ls ! j) \<noteq> 0"
      "def_size (resolved_block blk (ls ! j)) \<noteq> ls ! j"
      by (auto simp: word_sless_alt word_sle_eq)
    with d w have "resolve_stride blk (ls ! j) = Inr (Some (resolved_block blk (ls ! j)))"
      "check_size (resolved_block blk (ls ! j)) (ls ! j) evs
       = (None, evs @ [Ev_check_failed Chk_size])" for evs
      by (simp_all add: resolve_stride_def check_size_def CHK_I_def)
    with assms(1,2,3,4,5) False show ?thesis
      by (simp add: remap_block_def zero_block_def Let_def)
  qed
qed

text \<open>
  C8. Let the block count be valid and the session open. Let some block \<open>j\<close> have a
  nonzero device pointer, be known to the driver, and have a geometry inconsistent with
  the caller's length: \<open>min_page_width\<close> exceeds \<open>max_page_width\<close> as lowered, or
  \<open>def_size\<close> of the resolved descriptor is not the length. If the blocks before it
  do not stop the process (no division by zero, no read past the arrays), then the call
  returns: it returns \<^verbatim>\<open>NULL\<close>, leaves the cache as it was, and between the opening
  and the closing of the session it only queries blocks and reports failed checks; no
  buffer is registered and nothing is mapped.
\<close>

theorem remap_geometry_fault:
  assumes "0 < n" "n \<le> TILER_MAX_NUM_BLOCKS k" "0 \<le> sys_open e"
    and "j < nat n" "j < length dsptrs" "j < length lengths" "dsptrs ! j \<noteq> 0"
    and "TILIOC_QUERY_BLK e (zero_block\<lparr>ssptr := dsptrs ! j\<rparr>) = (0, blk)" "ssptr blk \<noteq> 0"
    and "geometry_fault blk (lengths ! j)"
    and "list_all (\<lambda>i. \<not> isl (remap_block e dsptrs lengths i)) [0..<j]"
  shows "\<exists>evs. tiler_assisted_phase1_D2CReMap k e c n dsptrs lengths
                 = Inr (NULL, c, Ev_open (sys_open e) # evs @ [Ev_close]) \<and>
               list_all is_block_event evs \<and>
               (\<forall>b res off. Ev_RBUF b res off \<notin> set evs) \<and>
               (\<forall>sz off addr. Ev_mmap sz off addr \<notin> set evs)"
proof -
  from geometry_fault_block [OF assms(5,6,7,8,9,10)] obtain evs0 where
    "remap_block e dsptrs lengths j = Inr (None, evs0)" ..
  from remap_aborts [OF assms(1,2,3,4) this assms(11)] obtain evs where
    run: "tiler_assisted_phase1_D2CReMap k e c n dsptrs lengths
          = Inr (NULL, c, Ev_open (sys_open e) # evs @ [Ev_close])"
    and evs: "list_all is_block_event evs"
    by blast
  from evs have "Ev_RBUF b res off \<notin> set evs" "Ev_mmap sz off addr \<notin> set evs"
    for b res off sz addr
    by (auto simp: list_all_iff)
  with run evs show ?thesis by blast
qed

theorem remap_geometry_fault_witness:
  "(0::int) < 1 \<and> 1 \<le> TILER_MAX_NUM_BLOCKS ex_consts \<and> 0 \<le> sys_open ex_env_2d \<and>
   (0::nat) < nat 1 \<and> 0 < length [0x80000010 :: DSPtr] \<and> 0 < length [786433 :: bytes_t] \<and>
   [0x80000010 :: DSPtr] ! 0 \<noteq> 0 \<and>
   TILIOC_QUERY_BLK ex_env_2d (zero_block\<lparr>ssptr := 0x80000010\<rparr>) = (0, ex_2d_block) \<and>
   ssptr ex_2d_block \<noteq> 0 \<and>
   min_page_width ex_2d_block 786433 = 4 \<and> max_page_width ex_2d_block 786433 = 2 \<and>
   geometry_fault ex_2d_block 786433 \<and>
   tiler_assisted_phase1_D2CReMap ex_consts ex_env_2d ex_cache 1 [0x80000010] [786433]
     = Inr (NULL, ex_cache,
         [Ev_open 3, Ev_QUERY_BLK 0x80000010 0, Ev_check_failed Chk_page_width, Ev_close]) \<and>
   min_page_width ex_2d_block 4097 = 1 \<and> max_page_width ex_2d_block 4097 = 2 \<and>
   def_size (resolved_block ex_2d_block 4097) = 4096 \<and>
   geometry_fault ex_2d_block 4097 \<and>
   tiler_assisted_phase1_D2CReMap ex_consts ex_env_2d ex_cache 1 [0x80000010] [4097]
     = Inr (NULL, ex_cache,
         [Ev_open 3, Ev_QUERY_BLK 0x80000010 0, Ev_check_failed Chk_size, Ev_close])"
proof -
  have q: "TILIOC_QUERY_BLK ex_env_2d (zero_block\<lparr>ssptr := 0x80000010\<rparr>) = (0, ex_2d_block)"
    by (simp add: ex_env_2d_def ex_env_def zero_block_def ex_2d_block_def)
  have w: "min_page_width ex_2d_block 786433 = 4" "max_page_width ex_2d_block 786433 = 2"
    "min_page_width ex_2d_block 4097 = 1" "max_page_width ex_2d_block 4097 = 2"
    "def_size (resolved_block ex_2d_block 4097) = 4096"
    by (simp_all add: ex_2d_eval)
  have g1: "geometry_fault ex_2d_block 786433"
    by (simp add: geometry_fault_def w word_sless_alt)
       (simp add: ex_2d_block_def max_alloc_size_def min_alloc_size_def PAGE_SIZE_def)
  have g2: "geometry_fault ex_2d_block 4097"
    by (simp add: geometry_fault_def w)
       (simp add: ex_2d_block_def max_alloc_size_def min_alloc_size_def PAGE_SIZE_def)
  have r1: "tiler_assisted_phase1_D2CReMap ex_consts ex_env_2d ex_cache 1 [0x80000010] [786433]
     = Inr (NULL, ex_cache,
         [Ev_open 3, Ev_QUERY_BLK 0x80000010 0, Ev_check_failed Chk_page_width, Ev_close])"
    using remap_geometry_fault [of 1 ex_consts ex_env_2d 0 "[0x80000010]" "[786433]"
            ex_2d_block ex_cache] q g1
    by (simp add: tiler_assisted_phase1_D2CReMap_def ex_env_2d_def ex_eval ex_2d_eval)
  have r2: "tiler_assisted_phase1_D2CReMap ex_consts ex_env_2d ex_cache 1 [0x80000010] [4097]
     = Inr (NULL, ex_cache,
         [Ev_open 3, Ev_QUERY_BLK 0x80000010 0, Ev_check_failed Chk_size, Ev_close])"
    using remap_geometry_fault [of 1 ex_consts ex_env_2d 0 "[0x80000010]" "[4097]"
            ex_2d_block ex_cache] q g2
    by (simp add: tiler_assisted_phase1_D2CReMap_def ex_env_2d_def ex_eval ex_2d_eval)
  from q w g1 g2 r1 r2 show ?thesis
    by (simp add: ex_consts_def ex_env_2d_def ex_env_def ex_2d_block_def)
qed

section \<open>The cache against the driver and the kernel\<close>











lemma world_after_simps [simp]:
  "world_after w [] = w"
  "world_after w (ev # evs) = world_after (world_event w ev) evs"
  "world_after w (xs @ ys) = world_after (world_after w xs) ys"
  by (simp_all add: world_after_def)













lemma ex_demap_run:
  "tiler_assisted_phase1_DeMap ex_consts ex_env ex_cache1 0x40000010
     = Inr (0, ex_cache2,
         [Ev_open 3, Ev_QBUF 0x1000 0, Ev_URBUF 0x1000 0,
          Ev_munmap 0x40000000 12288 0, Ev_close])"
  by (simp add: tiler_assisted_phase1_DeMap_def ex_env_def ex_consts_def ex_cache1_def
        ex_cache2_def remap_cache_del_def init_def Let_def
        demap_size_sum ex_blocks_def ex_page_block_def blk_at_def def_size_def
        upt_conv_Cons ROUND_DOWN_TO2POW_def PAGE_SIZE_def ERR_ADD_def)


lemma ex_world_after_demap:
  "world_after ex_world1
     [Ev_open 3, Ev_QBUF 0x1000 0, Ev_URBUF 0x1000 0, Ev_munmap 0x40000000 12288 0, Ev_close]
   = ex_world"
  by (simp add: ex_world_def ex_world1_def unmap_def overlaps_def region_end_def)









end
